theory Spec2Isabelle
  imports Main
begin

section \<open>The GraphQL schema objects the plugin reads\<close>

text \<open>
  The plugin receives a \<^verbatim>\<open>GraphQLSchema\<close> of graphql-js and reads four things from it:
  \<^verbatim>\<open>schema.getType(name)\<close>, \<^verbatim>\<open>schema.getMutationType()\<close>, \<^verbatim>\<open>type.getFields()\<close> and,
  of every field, its \<^verbatim>\<open>type\<close>, tested with \<^verbatim>\<open>isNonNullType\<close>, \<^verbatim>\<open>isListType\<close>,
  \<^verbatim>\<open>isObjectType\<close>, \<^verbatim>\<open>isInputObjectType\<close> and read through \<^verbatim>\<open>ofType\<close> and \<^verbatim>\<open>name\<close>.

  A named type of graphql-js is one of six kinds. A field's type is a named type under a
  chain of list and non-null wrappers; of the named type at the bottom only the kind and
  the name are read, so the reference to it carries just these two.
\<close>

datatype type_kind =
  ScalarKind | ObjectKind | InterfaceKind | UnionKind | EnumKind | InputObjectKind

datatype GraphQLType =
  NamedType type_kind string
| ListType GraphQLType
| NonNullType GraphQLType

text \<open>
  \<^verbatim>\<open>getFields()\<close> returns an object from field names to fields. \<^verbatim>\<open>Object.keys\<close> lists
  its keys in insertion order (GraphQL names are never integer-like), which is the order
  of declaration; \<^verbatim>\<open>fieldMap[key]\<close> reads one entry (\<open>map_of\<close>). Of a field only its
  \<^verbatim>\<open>type\<close> is used, so an entry pairs the field's name with its type.
\<close>

type_synonym FieldMap = "(string \<times> GraphQLType) list"

definition keys :: "FieldMap \<Rightarrow> string list" where
  "keys fieldMap = map fst fieldMap"

record GraphQLNamedType =
  tkind :: type_kind
  tname :: string
  tfields :: FieldMap

record GraphQLSchema =
  typeMap :: "string \<rightharpoonup> GraphQLNamedType"
  mutationType :: "GraphQLNamedType option"

definition getType :: "GraphQLSchema \<Rightarrow> string \<Rightarrow> GraphQLNamedType option" where
  "getType schema n = typeMap schema n"

definition getMutationType :: "GraphQLSchema \<Rightarrow> GraphQLNamedType option" where
  "getMutationType schema = mutationType schema"

definition getFields :: "GraphQLNamedType \<Rightarrow> FieldMap" where
  "getFields t = tfields t"

text \<open>\<^verbatim>\<open>isObjectType\<close> and \<^verbatim>\<open>isInputObjectType\<close> on the result of \<^verbatim>\<open>getType\<close>, which is
  \<^verbatim>\<open>undefined\<close> when the schema has no type of that name.\<close>

definition isObjectType :: "GraphQLNamedType option \<Rightarrow> bool" where
  "isObjectType t = (case t of None \<Rightarrow> False | Some ty \<Rightarrow> tkind ty = ObjectKind)"

definition isInputObjectType :: "GraphQLNamedType option \<Rightarrow> bool" where
  "isInputObjectType t = (case t of None \<Rightarrow> False | Some ty \<Rightarrow> tkind ty = InputObjectKind)"

section \<open>Field descriptors and the unwrap routine\<close>

text \<open>
  \<^verbatim>\<open>ModelFieldSchema\<close> is \<^verbatim>\<open>{type, array, nullable}\<close> in the \<^verbatim>\<open>tables\<close> variant
  (src/unnamed/part\_000) and \<^verbatim>\<open>{name, type, array, nullable}\<close> in src/src/index.ts. The
  second extends the first, and \<^verbatim>\<open>getInnerSchemaType\<close>, whose text is the same in both
  files, only copies the descriptor it is given and overwrites \<^verbatim>\<open>nullable\<close>, \<^verbatim>\<open>array\<close>
  or \<^verbatim>\<open>type\<close>; it is one function on the shared part of the record.
  The initial \<^verbatim>\<open>type\<close> is \<^verbatim>\<open>null\<close>.
\<close>

record ModelFieldSchema_tables =
  type :: "string option"
  array :: bool
  nullable :: bool

record ModelFieldSchema = ModelFieldSchema_tables +
  name :: string

fun getInnerSchemaType ::
  "GraphQLType \<Rightarrow> 'a ModelFieldSchema_tables_scheme \<Rightarrow> 'a ModelFieldSchema_tables_scheme option"
where
  "getInnerSchemaType (NonNullType ofType) schema =
     getInnerSchemaType ofType (schema\<lparr>nullable := False\<rparr>)"
| "getInnerSchemaType (NamedType k n) schema =
     (if k = ObjectKind \<or> k = InputObjectKind then None
      else Some (schema\<lparr>type := Some n\<rparr>))"
| "getInnerSchemaType (ListType ofType) schema =
     getInnerSchemaType ofType (schema\<lparr>array := True\<rparr>)"

section \<open>Library functions and JavaScript values\<close>

text \<open>
  \<^verbatim>\<open>snake\<close> and \<^verbatim>\<open>camel\<close> come from the package radash, which is not part of this
  repository: they are parameters of the model, and every theorem holds for any two
  functions on strings.
\<close>

record Radash =
  snake :: "string \<Rightarrow> string"
  camel :: "string \<Rightarrow> string"

text \<open>\<^verbatim>\<open>String.prototype.includes\<close>: \<open>str_includes s t\<close> is \<^verbatim>\<open>s.includes(t)\<close>.\<close>

fun startsWith :: "string \<Rightarrow> string \<Rightarrow> bool" where
  "startsWith s [] = True"
| "startsWith [] (c # t) = False"
| "startsWith (d # s) (c # t) = (d = c \<and> startsWith s t)"

fun str_includes :: "string \<Rightarrow> string \<Rightarrow> bool" where
  "str_includes [] t = (t = [])"
| "str_includes (d # s) t = (startsWith (d # s) t \<or> str_includes s t)"

text \<open>
  Errors are values. \<^verbatim>\<open>TypeError\<close> is what JavaScript raises on a property read or a
  method call on \<^verbatim>\<open>undefined\<close> or \<^verbatim>\<open>null\<close>; \<open>Error msg\<close> is \<^verbatim>\<open>throw new Error(msg)\<close>.
\<close>

datatype error = TypeError | Error string

text \<open>
  Truthiness, as the conditions of the source use it: an array is truthy also when it is
  empty, an object is truthy and \<^verbatim>\<open>null\<close> is not, a number is truthy unless it is zero,
  and \<^verbatim>\<open>undefined\<close> is falsy.
\<close>

definition truthy_array :: "'a list \<Rightarrow> bool" where
  "truthy_array xs = True"

definition truthy_object :: "'a option \<Rightarrow> bool" where
  "truthy_object x = (case x of None \<Rightarrow> False | Some v \<Rightarrow> True)"

definition truthy_number :: "int option \<Rightarrow> bool" where
  "truthy_number x = (case x of None \<Rightarrow> False | Some n \<Rightarrow> n \<noteq> 0)"

definition truthy_boolean :: "bool option \<Rightarrow> bool" where
  "truthy_boolean x = (case x of None \<Rightarrow> False | Some b \<Rightarrow> b)"

text \<open>\<^verbatim>\<open>{...acc, [key]: value}\<close> on an object with string keys: an existing key keeps its
  place and takes the new value, a new key goes last.\<close>

fun spread_set :: "(string \<times> 'a) list \<Rightarrow> string \<Rightarrow> 'a \<Rightarrow> (string \<times> 'a) list" where
  "spread_set [] key v = [(key, v)]"
| "spread_set ((k, w) # acc) key v =
     (if k = key then (k, v) # acc else (k, w) # spread_set acc key v)"

text \<open>\<^verbatim>\<open>Array.prototype.reduce\<close> with a callback that may throw: the first error ends
  the loop and is the result.\<close>

fun reduce :: "('b \<Rightarrow> 'a \<Rightarrow> error + 'b) \<Rightarrow> 'a list \<Rightarrow> 'b \<Rightarrow> error + 'b" where
  "reduce f [] acc = Inr acc"
| "reduce f (x # xs) acc =
     (case f acc x of Inl e \<Rightarrow> Inl e | Inr acc' \<Rightarrow> reduce f xs acc')"

section \<open>Configuration and validation\<close>

text \<open>
  \<^verbatim>\<open>HasuraGraphQLConfig\<close> of src/src/index.ts and of src/unnamed/part\_000; every option
  may be missing. \<^verbatim>\<open>maxDepth\<close> is a whole number here (the documented values are).
\<close>

record HasuraGraphQLConfig =
  models :: "string list option"
  maxDepth :: "int option"
  cfg_disableFields :: "string list option"
  cfg_primaryKeyNames :: "string list option"

record HasuraGraphQLConfig_tables =
  commentDescriptions :: "bool option"
  tables :: "string list option"
  maxDepth_tables :: "int option"
  cfg_disableAggregateFields :: "bool option"
  cfg_disableFields_tables :: "string list option"

text \<open>\<^verbatim>\<open>if (_config.maxDepth && _config.maxDepth <= 0) throw new Error(...)\<close>, the same
  text in both files.\<close>

definition validate_maxDepth :: "int option \<Rightarrow> error + unit" where
  "validate_maxDepth d =
     (if truthy_number d \<and> (case d of None \<Rightarrow> False | Some n \<Rightarrow> n \<le> 0)
      then Inl (Error ''maxDepth must be larger than 0'')
      else Inr ())"

definition validate :: "HasuraGraphQLConfig \<Rightarrow> error + unit" where
  "validate config = validate_maxDepth (maxDepth config)"

definition validate_tables :: "HasuraGraphQLConfig_tables \<Rightarrow> error + unit" where
  "validate_tables config = validate_maxDepth (maxDepth_tables config)"

section \<open>The field flattener\<close>

record BuildModelSchemaOptions =
  disableFields :: "string list option"
  primaryKeyNames :: "string list"

record BuildModelSchemaOptions_tables =
  disableAggregateFields :: "bool option"
  disableFields_tables :: "string list option"

text \<open>
  src/src/index.ts, \<^verbatim>\<open>buildModelSchema\<close>: a reduce over \<^verbatim>\<open>Object.keys(fieldMap)\<close> that
  appends one descriptor per kept field. \<^verbatim>\<open>options.disableFields?.some(...)\<close> is
  \<^verbatim>\<open>undefined\<close>, hence falsy, when the option is missing. The branch for a key without
  an entry is never taken, the keys being those of \<^verbatim>\<open>fieldMap\<close>.
\<close>

definition buildModelSchema ::
  "GraphQLNamedType \<Rightarrow> BuildModelSchemaOptions \<Rightarrow> ModelFieldSchema list" where
  "buildModelSchema modelType options =
     (let fieldMap = getFields modelType in
      foldl (\<lambda>acc key.
          if (case disableFields options of
                None \<Rightarrow> False
              | Some ds \<Rightarrow> list_ex (\<lambda>disabledTerm. str_includes key disabledTerm) ds)
          then acc
          else (case map_of fieldMap key of
                  None \<Rightarrow> acc
                | Some fieldType \<Rightarrow>
                    (case getInnerSchemaType fieldType
                            \<lparr>type = None, array = False, nullable = True, name = key\<rparr> of
                       None \<Rightarrow> acc
                     | Some schema \<Rightarrow> acc @ [schema])))
        [] (keys fieldMap))"

text \<open>src/unnamed/part\_000, \<^verbatim>\<open>buildModelSchema\<close>: the result is an object keyed by
  field name, and the exclusion is by exact name or by the substring \<^verbatim>\<open>_aggregate\<close>.\<close>

definition buildModelSchema_tables ::
  "GraphQLNamedType \<Rightarrow> BuildModelSchemaOptions_tables
     \<Rightarrow> (string \<times> ModelFieldSchema_tables) list" where
  "buildModelSchema_tables modelType options =
     (let fieldMap = getFields modelType in
      foldl (\<lambda>acc key.
          if (truthy_boolean (disableAggregateFields options) \<and> str_includes key ''_aggregate'')
             \<or> (case disableFields_tables options of
                  None \<Rightarrow> False
                | Some ds \<Rightarrow> key \<in> set ds)
          then acc
          else (case map_of fieldMap key of
                  None \<Rightarrow> acc
                | Some fieldType \<Rightarrow>
                    (case getInnerSchemaType fieldType
                            \<lparr>type = None, array = False, nullable = True\<rparr> of
                       None \<Rightarrow> acc
                     | Some schema \<Rightarrow> spread_set acc key schema)))
        [] (keys fieldMap))"

section \<open>The type resolver and the per-model record\<close>

record Permissions_tables =
  insert_flag :: bool
  update_flag :: bool
  delete_flag :: bool

record Permissions = Permissions_tables +
  get_flag :: bool

record ModelSchemas =
  primaryKeys :: "ModelFieldSchema list"
  permissions :: Permissions
  model :: "ModelFieldSchema list"
  insertInput :: "ModelFieldSchema list"
  setInput :: "ModelFieldSchema list"

text \<open>In src/unnamed/part\_000 a collection is an object keyed by field name, or
  \<^verbatim>\<open>null\<close> when its type did not resolve.\<close>

record ModelSchemas_tables =
  permissions_tables :: Permissions_tables
  model_tables :: "(string \<times> ModelFieldSchema_tables) list option"
  insertInput_tables :: "(string \<times> ModelFieldSchema_tables) list option"
  setInput_tables :: "(string \<times> ModelFieldSchema_tables) list option"

text \<open>
  \<^verbatim>\<open>Boolean(mutationFields[a] ?? mutationFields[b])\<close>: a field object is truthy, so the
  value is true when the first lookup finds a field, and otherwise when the second does.
\<close>

definition canDelete_of :: "FieldMap \<Rightarrow> string \<Rightarrow> string \<Rightarrow> bool" where
  "canDelete_of mutationFields deleteFieldName deleteFieldNameCamelCase =
     (case map_of mutationFields deleteFieldName of
        Some f \<Rightarrow> True
      | None \<Rightarrow> (case map_of mutationFields deleteFieldNameCamelCase of
                   Some f \<Rightarrow> True
                 | None \<Rightarrow> False))"

text \<open>
  src/src/index.ts, lines 145 to 213: the body of the callback of \<^verbatim>\<open>models.reduce\<close> up
  to the record \<^verbatim>\<open>result\<close>. A ternary \<^verbatim>\<open>isObjectType(t) ? buildModelSchema(t, options) : []\<close>
  is the \<open>case\<close> on \<open>t\<close> with the same test inside.
\<close>

definition buildModelSchemas_result ::
  "Radash \<Rightarrow> GraphQLSchema \<Rightarrow> FieldMap \<Rightarrow> BuildModelSchemaOptions \<Rightarrow> string \<Rightarrow> ModelSchemas"
where
  "buildModelSchemas_result R schema mutationFields options modelName =
     (let fieldName = snake R modelName;
          fieldInsertInputName = snake R (fieldName @ ''_insert_input'');
          fieldSetInputName = snake R (fieldName @ ''_set_input'');
          deleteFieldName = ''delete_'' @ fieldName;
          fieldPkColumnsName = snake R (fieldName @ ''_pk_columns_input'');
          fieldNameCamelCase = camel R modelName;
          fieldInsertInputNameCamelCase = camel R fieldInsertInputName;
          fieldSetInputNameCamelCase = camel R fieldSetInputName;
          deleteFieldNameCamelCase = camel R deleteFieldName;
          fieldPkColumnsNameCamelCase = camel R fieldPkColumnsName;
          modelType =
            (if isObjectType (getType schema fieldName)
             then getType schema fieldName
             else getType schema fieldNameCamelCase);
          insertInputType =
            (if isInputObjectType (getType schema fieldInsertInputName)
             then getType schema fieldInsertInputName
             else getType schema fieldInsertInputNameCamelCase);
          setInputType =
            (if isInputObjectType (getType schema fieldSetInputName)
             then getType schema fieldSetInputName
             else getType schema fieldSetInputNameCamelCase);
          pkInputType =
            (if isInputObjectType (getType schema fieldPkColumnsName)
             then getType schema fieldPkColumnsName
             else getType schema fieldPkColumnsNameCamelCase);
          canDelete = canDelete_of mutationFields deleteFieldName deleteFieldNameCamelCase;
          modelSchemas =
            (case modelType of
               None \<Rightarrow> []
             | Some t \<Rightarrow> if isObjectType modelType then buildModelSchema t options else []);
          insertInput' =
            (case insertInputType of
               None \<Rightarrow> []
             | Some t \<Rightarrow>
                 if isInputObjectType insertInputType then buildModelSchema t options else []);
          setInput' =
            (case setInputType of
               None \<Rightarrow> []
             | Some t \<Rightarrow>
                 if isInputObjectType setInputType then buildModelSchema t options else []);
          primaryKeys' =
            (case pkInputType of
               None \<Rightarrow> filter (\<lambda>m. name m \<in> set (primaryKeyNames options)) modelSchemas
             | Some t \<Rightarrow>
                 if isInputObjectType pkInputType then buildModelSchema t options
                 else filter (\<lambda>m. name m \<in> set (primaryKeyNames options)) modelSchemas)
      in \<lparr>primaryKeys = primaryKeys',
          permissions =
            \<lparr>insert_flag = length insertInput' > 0,
             update_flag = length setInput' > 0,
             delete_flag = canDelete,
             get_flag = length modelSchemas > 0\<rparr>,
          model = modelSchemas,
          insertInput = insertInput',
          setInput = setInput'\<rparr>)"

text \<open>The rest of the callback: the check
  \<^verbatim>\<open>!result.model && !result.insertInput && !result.setInput\<close> on three arrays, the
  \<^verbatim>\<open>throw\<close>, and \<^verbatim>\<open>{...acc, [modelName]: result}\<close>.\<close>

definition model_error :: "string \<Rightarrow> error" where
  "model_error modelName =
     Error (''model '' @ modelName
            @ '' doesn't exist, or maybe the role doesn't have any permission'')"

definition buildModelSchemas_callback ::
  "Radash \<Rightarrow> GraphQLSchema \<Rightarrow> FieldMap \<Rightarrow> BuildModelSchemaOptions
     \<Rightarrow> (string \<rightharpoonup> ModelSchemas) \<Rightarrow> string \<Rightarrow> error + (string \<rightharpoonup> ModelSchemas)"
where
  "buildModelSchemas_callback R schema mutationFields options acc modelName =
     (let result = buildModelSchemas_result R schema mutationFields options modelName in
      if \<not> truthy_array (model result) \<and> \<not> truthy_array (insertInput result)
         \<and> \<not> truthy_array (setInput result)
      then Inl (model_error modelName)
      else Inr (acc(modelName \<mapsto> result)))"

text \<open>
  \<^verbatim>\<open>schema.getMutationType().getFields()\<close> comes first and raises a \<^verbatim>\<open>TypeError\<close> on a
  schema without a mutation type; \<^verbatim>\<open>models.reduce\<close> raises one when \<^verbatim>\<open>models\<close> is
  \<^verbatim>\<open>undefined\<close>.
\<close>

definition buildModelSchemas ::
  "Radash \<Rightarrow> string list option \<Rightarrow> GraphQLSchema \<Rightarrow> BuildModelSchemaOptions
     \<Rightarrow> error + (string \<rightharpoonup> ModelSchemas)"
where
  "buildModelSchemas R models' schema options =
     (case getMutationType schema of
        None \<Rightarrow> Inl TypeError
      | Some mutation \<Rightarrow>
          (let mutationFields = getFields mutation in
           case models' of
             None \<Rightarrow> Inl TypeError
           | Some ms \<Rightarrow>
               reduce (buildModelSchemas_callback R schema mutationFields options) ms Map.empty))"

text \<open>\<^verbatim>\<open>plugin\<close> of src/src/index.ts, before \<^verbatim>\<open>JSON.stringify\<close>: the destructuring gives
  \<^verbatim>\<open>primaryKeyNames\<close> the default \<^verbatim>\<open>["id"]\<close>.\<close>

definition plugin ::
  "Radash \<Rightarrow> GraphQLSchema \<Rightarrow> HasuraGraphQLConfig \<Rightarrow> error + (string \<rightharpoonup> ModelSchemas)"
where
  "plugin R schema config =
     buildModelSchemas R (models config) schema
       \<lparr>disableFields = cfg_disableFields config,
        primaryKeyNames =
          (case cfg_primaryKeyNames config of None \<Rightarrow> [''id''] | Some ns \<Rightarrow> ns)\<rparr>"

text \<open>src/unnamed/part\_000, lines 158 to 209: the record \<^verbatim>\<open>result\<close> of the callback of
  \<^verbatim>\<open>tables.reduce\<close>; a collection is \<^verbatim>\<open>null\<close> when its type is not of the expected kind.\<close>

definition buildModelSchemas_tables_result ::
  "Radash \<Rightarrow> GraphQLSchema \<Rightarrow> FieldMap \<Rightarrow> BuildModelSchemaOptions_tables \<Rightarrow> string
     \<Rightarrow> ModelSchemas_tables"
where
  "buildModelSchemas_tables_result R schema mutationFields options modelName =
     (let fieldName = snake R modelName;
          fieldInsertInputName = snake R (fieldName @ ''_insert_input'');
          fieldSetInputName = snake R (fieldName @ ''_set_input'');
          deleteFieldName = ''delete_'' @ fieldName;
          fieldNameCamelCase = camel R modelName;
          fieldInsertInputNameCamelCase = camel R fieldInsertInputName;
          fieldSetInputNameCamelCase = camel R fieldSetInputName;
          deleteFieldNameCamelCase = camel R deleteFieldName;
          modelType =
            (if isObjectType (getType schema fieldName)
             then getType schema fieldName
             else getType schema fieldNameCamelCase);
          insertInputType =
            (if isInputObjectType (getType schema fieldInsertInputName)
             then getType schema fieldInsertInputName
             else getType schema fieldInsertInputNameCamelCase);
          setInputType =
            (if isInputObjectType (getType schema fieldSetInputName)
             then getType schema fieldSetInputName
             else getType schema fieldSetInputNameCamelCase);
          canDelete = canDelete_of mutationFields deleteFieldName deleteFieldNameCamelCase;
          insertInput' =
            (case insertInputType of
               None \<Rightarrow> None
             | Some t \<Rightarrow>
                 if isInputObjectType insertInputType
                 then Some (buildModelSchema_tables t options) else None);
          setInput' =
            (case setInputType of
               None \<Rightarrow> None
             | Some t \<Rightarrow>
                 if isInputObjectType setInputType
                 then Some (buildModelSchema_tables t options) else None)
      in \<lparr>permissions_tables =
            \<lparr>insert_flag = truthy_object insertInput',
             update_flag = truthy_object setInput',
             delete_flag = canDelete\<rparr>,
          model_tables =
            (case modelType of
               None \<Rightarrow> None
             | Some t \<Rightarrow>
                 if isObjectType modelType
                 then Some (buildModelSchema_tables t options) else None),
          insertInput_tables = insertInput',
          setInput_tables = setInput'\<rparr>)"

definition buildModelSchemas_tables_callback ::
  "Radash \<Rightarrow> GraphQLSchema \<Rightarrow> FieldMap \<Rightarrow> BuildModelSchemaOptions_tables
     \<Rightarrow> (string \<rightharpoonup> ModelSchemas_tables) \<Rightarrow> string
     \<Rightarrow> error + (string \<rightharpoonup> ModelSchemas_tables)"
where
  "buildModelSchemas_tables_callback R schema mutationFields options acc modelName =
     (let result = buildModelSchemas_tables_result R schema mutationFields options modelName in
      if \<not> truthy_object (model_tables result) \<and> \<not> truthy_object (insertInput_tables result)
         \<and> \<not> truthy_object (setInput_tables result)
      then Inl (model_error modelName)
      else Inr (acc(modelName \<mapsto> result)))"

definition buildModelSchemas_tables ::
  "Radash \<Rightarrow> string list option \<Rightarrow> GraphQLSchema \<Rightarrow> BuildModelSchemaOptions_tables
     \<Rightarrow> error + (string \<rightharpoonup> ModelSchemas_tables)"
where
  "buildModelSchemas_tables R tables' schema options =
     (case getMutationType schema of
        None \<Rightarrow> Inl TypeError
      | Some mutation \<Rightarrow>
          (let mutationFields = getFields mutation in
           case tables' of
             None \<Rightarrow> Inl TypeError
           | Some ts \<Rightarrow>
               reduce (buildModelSchemas_tables_callback R schema mutationFields options)
                 ts Map.empty))"

definition plugin_tables ::
  "Radash \<Rightarrow> GraphQLSchema \<Rightarrow> HasuraGraphQLConfig_tables
     \<Rightarrow> error + (string \<rightharpoonup> ModelSchemas_tables)"
where
  "plugin_tables R schema config =
     buildModelSchemas_tables R (tables config) schema
       \<lparr>disableAggregateFields = cfg_disableAggregateFields config,
        disableFields_tables = cfg_disableFields_tables config\<rparr>"

section \<open>Notions the properties are stated with\<close>

text \<open>The named type under the wrappers of a field type, and which wrappers occur
  above it.\<close>

fun namedKind :: "GraphQLType \<Rightarrow> type_kind" where
  "namedKind (NamedType k n) = k"
| "namedKind (ListType t) = namedKind t"
| "namedKind (NonNullType t) = namedKind t"

fun namedName :: "GraphQLType \<Rightarrow> string" where
  "namedName (NamedType k n) = n"
| "namedName (ListType t) = namedName t"
| "namedName (NonNullType t) = namedName t"

fun hasNonNull :: "GraphQLType \<Rightarrow> bool" where
  "hasNonNull (NamedType k n) = False"
| "hasNonNull (ListType t) = hasNonNull t"
| "hasNonNull (NonNullType t) = True"

fun hasList :: "GraphQLType \<Rightarrow> bool" where
  "hasList (NamedType k n) = False"
| "hasList (ListType t) = True"
| "hasList (NonNullType t) = hasList t"

definition unwrapsToObject :: "GraphQLType \<Rightarrow> bool" where
  "unwrapsToObject t = (namedKind t = ObjectKind \<or> namedKind t = InputObjectKind)"

text \<open>
  The resolution of one type slot in the words of the specification: the type of the
  snake\_case name if the schema has it and it is of the expected kind, else the type of
  the camelCase name under the same check, else nothing.
\<close>

definition lookupKind :: "type_kind \<Rightarrow> GraphQLSchema \<Rightarrow> string \<Rightarrow> GraphQLNamedType option" where
  "lookupKind expected schema n =
     (case typeMap schema n of
        None \<Rightarrow> None
      | Some t \<Rightarrow> if tkind t = expected then Some t else None)"

definition resolveHandle ::
  "type_kind \<Rightarrow> GraphQLSchema \<Rightarrow> string \<Rightarrow> string \<Rightarrow> GraphQLNamedType option" where
  "resolveHandle expected schema snakeName camelName =
     (case lookupKind expected schema snakeName of
        Some t \<Rightarrow> Some t
      | None \<Rightarrow> lookupKind expected schema camelName)"

text \<open>The candidate names of a model, as the callback computes them.\<close>

definition insertInputName :: "Radash \<Rightarrow> string \<Rightarrow> string" where
  "insertInputName R modelName = snake R (snake R modelName @ ''_insert_input'')"

definition setInputName :: "Radash \<Rightarrow> string \<Rightarrow> string" where
  "setInputName R modelName = snake R (snake R modelName @ ''_set_input'')"

definition pkColumnsName :: "Radash \<Rightarrow> string \<Rightarrow> string" where
  "pkColumnsName R modelName = snake R (snake R modelName @ ''_pk_columns_input'')"

definition deleteName :: "Radash \<Rightarrow> string \<Rightarrow> string" where
  "deleteName R modelName = ''delete_'' @ snake R modelName"

text \<open>At least one of the three slots that the check before the \<^verbatim>\<open>throw\<close> reads has
  a handle: the model type, the insert-input type or the set-input type.\<close>

definition resolvesAny :: "Radash \<Rightarrow> GraphQLSchema \<Rightarrow> string \<Rightarrow> bool" where
  "resolvesAny R schema modelName =
     (truthy_object (resolveHandle ObjectKind schema (snake R modelName) (camel R modelName))
      \<or> truthy_object (resolveHandle InputObjectKind schema (insertInputName R modelName)
            (camel R (insertInputName R modelName)))
      \<or> truthy_object (resolveHandle InputObjectKind schema (setInputName R modelName)
            (camel R (setInputName R modelName))))"

text \<open>A mutation field of the given name exists.\<close>

definition hasMutationField :: "GraphQLSchema \<Rightarrow> string \<Rightarrow> bool" where
  "hasMutationField schema n =
     (case getMutationType schema of
        None \<Rightarrow> False
      | Some mutation \<Rightarrow> n \<in> fst ` set (getFields mutation))"

text \<open>
  What one round of the reduce in \<^verbatim>\<open>buildModelSchema\<close> adds for a key: the descriptor,
  or nothing when the key is excluded or its type unwraps to an object. The two
  flatteners are folds of these (lemmas \<open>buildModelSchema_map_filter\<close> and
  \<open>buildModelSchema_tables_fold\<close>).
\<close>

definition flattenField ::
  "BuildModelSchemaOptions \<Rightarrow> FieldMap \<Rightarrow> string \<Rightarrow> ModelFieldSchema option" where
  "flattenField options fieldMap key =
     (if (case disableFields options of
            None \<Rightarrow> False
          | Some ds \<Rightarrow> list_ex (\<lambda>disabledTerm. str_includes key disabledTerm) ds)
      then None
      else (case map_of fieldMap key of
              None \<Rightarrow> None
            | Some fieldType \<Rightarrow>
                getInnerSchemaType fieldType
                  \<lparr>type = None, array = False, nullable = True, name = key\<rparr>))"

definition flattenField_tables ::
  "BuildModelSchemaOptions_tables \<Rightarrow> FieldMap \<Rightarrow> string \<Rightarrow> ModelFieldSchema_tables option"
where
  "flattenField_tables options fieldMap key =
     (if (truthy_boolean (disableAggregateFields options) \<and> str_includes key ''_aggregate'')
         \<or> (case disableFields_tables options of
              None \<Rightarrow> False
            | Some ds \<Rightarrow> key \<in> set ds)
      then None
      else (case map_of fieldMap key of
              None \<Rightarrow> None
            | Some fieldType \<Rightarrow>
                getInnerSchemaType fieldType \<lparr>type = None, array = False, nullable = True\<rparr>))"

section \<open>An example schema\<close>

text \<open>
  The schema of the specification's example: an object type \<^verbatim>\<open>user\<close> with
  \<^verbatim>\<open>id: ID!\<close>, \<^verbatim>\<open>name: String\<close>, \<^verbatim>\<open>roles: [String!]!\<close> and, added here, a relation
  \<^verbatim>\<open>profile: profile\<close>; an input type \<^verbatim>\<open>user_insert_input\<close> with \<^verbatim>\<open>name: String\<close>;
  no \<^verbatim>\<open>user_set_input\<close>; a mutation type with the one field \<^verbatim>\<open>insert_user\<close>.
  \<open>example_radash\<close> agrees with radash on the names of this model: they are in snake
  case already, and \<^verbatim>\<open>camel\<close> is tabulated.
\<close>

definition example_radash :: Radash where
  "example_radash =
     \<lparr>snake = (\<lambda>s. s),
      camel = (\<lambda>s. case map_of
                 [(''user_insert_input'', ''userInsertInput''),
                  (''user_set_input'', ''userSetInput''),
                  (''user_pk_columns_input'', ''userPkColumnsInput''),
                  (''delete_user'', ''deleteUser''),
                  (''ghost_insert_input'', ''ghostInsertInput''),
                  (''ghost_set_input'', ''ghostSetInput''),
                  (''ghost_pk_columns_input'', ''ghostPkColumnsInput''),
                  (''delete_ghost'', ''deleteGhost'')] s of
                 None \<Rightarrow> s
               | Some c \<Rightarrow> c)\<rparr>"

definition user_type :: GraphQLNamedType where
  "user_type =
     \<lparr>tkind = ObjectKind, tname = ''user'',
      tfields =
        [(''id'', NonNullType (NamedType ScalarKind ''ID'')),
         (''name'', NamedType ScalarKind ''String''),
         (''roles'', NonNullType (ListType (NonNullType (NamedType ScalarKind ''String'')))),
         (''profile'', NamedType ObjectKind ''profile'')]\<rparr>"

definition user_insert_input_type :: GraphQLNamedType where
  "user_insert_input_type =
     \<lparr>tkind = InputObjectKind, tname = ''user_insert_input'',
      tfields = [(''name'', NamedType ScalarKind ''String'')]\<rparr>"

definition mutation_root :: GraphQLNamedType where
  "mutation_root =
     \<lparr>tkind = ObjectKind, tname = ''mutation_root'',
      tfields = [(''insert_user'', NamedType ObjectKind ''user_mutation_response'')]\<rparr>"

definition example_schema :: GraphQLSchema where
  "example_schema =
     \<lparr>typeMap = map_of
        [(''user'', user_type),
         (''user_insert_input'', user_insert_input_type),
         (''mutation_root'', mutation_root)],
      mutationType = Some mutation_root\<rparr>"

definition example_options :: BuildModelSchemaOptions where
  "example_options = \<lparr>disableFields = None, primaryKeyNames = [''id'']\<rparr>"

definition example_options_tables :: BuildModelSchemaOptions_tables where
  "example_options_tables = \<lparr>disableAggregateFields = None, disableFields_tables = None\<rparr>"

text \<open>The records the two variants build for \<^verbatim>\<open>user\<close> on the example schema.\<close>

definition example_user_record :: ModelSchemas where
  "example_user_record =
     \<lparr>primaryKeys =
        [\<lparr>type = Some ''ID'', array = False, nullable = False, name = ''id''\<rparr>],
      permissions =
        \<lparr>insert_flag = True, update_flag = False, delete_flag = False, get_flag = True\<rparr>,
      model =
        [\<lparr>type = Some ''ID'', array = False, nullable = False, name = ''id''\<rparr>,
         \<lparr>type = Some ''String'', array = False, nullable = True, name = ''name''\<rparr>,
         \<lparr>type = Some ''String'', array = True, nullable = False, name = ''roles''\<rparr>],
      insertInput =
        [\<lparr>type = Some ''String'', array = False, nullable = True, name = ''name''\<rparr>],
      setInput = []\<rparr>"

definition example_user_record_tables :: ModelSchemas_tables where
  "example_user_record_tables =
     \<lparr>permissions_tables =
        \<lparr>insert_flag = True, update_flag = False, delete_flag = False\<rparr>,
      model_tables = Some
        [(''id'', \<lparr>type = Some ''ID'', array = False, nullable = False\<rparr>),
         (''name'', \<lparr>type = Some ''String'', array = False, nullable = True\<rparr>),
         (''roles'', \<lparr>type = Some ''String'', array = True, nullable = False\<rparr>)],
      insertInput_tables = Some
        [(''name'', \<lparr>type = Some ''String'', array = False, nullable = True\<rparr>)],
      setInput_tables = None\<rparr>"

definition example_config :: HasuraGraphQLConfig where
  "example_config =
     \<lparr>models = Some [''user''], maxDepth = None, cfg_disableFields = None,
      cfg_primaryKeyNames = None\<rparr>"

text \<open>
  A schema with a second model: an object type \<^verbatim>\<open>role\<close> with \<^verbatim>\<open>id: Int!\<close>,
  \<^verbatim>\<open>name: String!\<close> and a relation \<^verbatim>\<open>users: [user!]!\<close>, the input types
  \<^verbatim>\<open>role_set_input\<close> and \<^verbatim>\<open>role_pk_columns_input\<close>, no \<^verbatim>\<open>role_insert_input\<close>, and
  the mutation fields \<^verbatim>\<open>insert_user\<close> and \<^verbatim>\<open>delete_role\<close>; and the records the two
  variants build for \<^verbatim>\<open>role\<close> on it.
\<close>

definition two_model_radash :: Radash where
  "two_model_radash =
     \<lparr>snake = (\<lambda>s. s),
      camel = (\<lambda>s. case map_of
                 [(''user_insert_input'', ''userInsertInput''),
                  (''user_set_input'', ''userSetInput''),
                  (''user_pk_columns_input'', ''userPkColumnsInput''),
                  (''delete_user'', ''deleteUser''),
                  (''role_insert_input'', ''roleInsertInput''),
                  (''role_set_input'', ''roleSetInput''),
                  (''role_pk_columns_input'', ''rolePkColumnsInput''),
                  (''delete_role'', ''deleteRole'')] s of
                 None \<Rightarrow> s
               | Some c \<Rightarrow> c)\<rparr>"

definition role_type :: GraphQLNamedType where
  "role_type =
     \<lparr>tkind = ObjectKind, tname = ''role'',
      tfields =
        [(''id'', NonNullType (NamedType ScalarKind ''Int'')),
         (''name'', NonNullType (NamedType ScalarKind ''String'')),
         (''users'', NonNullType (ListType (NonNullType (NamedType ObjectKind ''user''))))]\<rparr>"

definition role_set_input_type :: GraphQLNamedType where
  "role_set_input_type =
     \<lparr>tkind = InputObjectKind, tname = ''role_set_input'',
      tfields = [(''name'', NamedType ScalarKind ''String'')]\<rparr>"

definition role_pk_columns_input_type :: GraphQLNamedType where
  "role_pk_columns_input_type =
     \<lparr>tkind = InputObjectKind, tname = ''role_pk_columns_input'',
      tfields = [(''id'', NonNullType (NamedType ScalarKind ''Int''))]\<rparr>"

definition two_model_mutation_root :: GraphQLNamedType where
  "two_model_mutation_root =
     \<lparr>tkind = ObjectKind, tname = ''mutation_root'',
      tfields =
        [(''insert_user'', NamedType ObjectKind ''user_mutation_response''),
         (''delete_role'', NamedType ObjectKind ''role_mutation_response'')]\<rparr>"

definition two_model_schema :: GraphQLSchema where
  "two_model_schema =
     \<lparr>typeMap = map_of
        [(''user'', user_type),
         (''user_insert_input'', user_insert_input_type),
         (''role'', role_type),
         (''role_set_input'', role_set_input_type),
         (''role_pk_columns_input'', role_pk_columns_input_type),
         (''mutation_root'', two_model_mutation_root)],
      mutationType = Some two_model_mutation_root\<rparr>"

definition two_model_config :: HasuraGraphQLConfig where
  "two_model_config =
     \<lparr>models = Some [''user'', ''role''], maxDepth = None, cfg_disableFields = None,
      cfg_primaryKeyNames = None\<rparr>"

definition example_role_record :: ModelSchemas where
  "example_role_record =
     \<lparr>primaryKeys =
        [\<lparr>type = Some ''Int'', array = False, nullable = False, name = ''id''\<rparr>],
      permissions =
        \<lparr>insert_flag = False, update_flag = True, delete_flag = True, get_flag = True\<rparr>,
      model =
        [\<lparr>type = Some ''Int'', array = False, nullable = False, name = ''id''\<rparr>,
         \<lparr>type = Some ''String'', array = False, nullable = False, name = ''name''\<rparr>],
      insertInput = [],
      setInput =
        [\<lparr>type = Some ''String'', array = False, nullable = True, name = ''name''\<rparr>]\<rparr>"

definition example_role_record_tables :: ModelSchemas_tables where
  "example_role_record_tables =
     \<lparr>permissions_tables =
        \<lparr>insert_flag = False, update_flag = True, delete_flag = True\<rparr>,
      model_tables = Some
        [(''id'', \<lparr>type = Some ''Int'', array = False, nullable = False\<rparr>),
         (''name'', \<lparr>type = Some ''String'', array = False, nullable = False\<rparr>)],
      insertInput_tables = None,
      setInput_tables = Some
        [(''name'', \<lparr>type = Some ''String'', array = False, nullable = True\<rparr>)]\<rparr>"

section \<open>The unwrap routine in closed form\<close>

lemma getInnerSchemaType_eq:
  "getInnerSchemaType t acc =
     (if unwrapsToObject t then None
      else Some (acc\<lparr>type := Some (namedName t),
                     array := (array acc \<or> hasList t),
                     nullable := (nullable acc \<and> \<not> hasNonNull t)\<rparr>))"
  by (induction t arbitrary: acc) (simp_all add: unwrapsToObject_def)

section \<open>The flatteners as folds of one-key steps\<close>

lemma foldl_append_option:
  "foldl (\<lambda>acc k. case f k of None \<Rightarrow> acc | Some x \<Rightarrow> acc @ [x]) init ks
     = init @ List.map_filter f ks"
  by (induction ks arbitrary: init) (simp_all add: List.map_filter_simps split: option.splits)

lemma buildModelSchema_map_filter:
  "buildModelSchema ty options
     = List.map_filter (flattenField options (tfields ty)) (keys (tfields ty))"
proof -
  have "(\<lambda>acc key.
          if (case disableFields options of
                None \<Rightarrow> False
              | Some ds \<Rightarrow> list_ex (\<lambda>disabledTerm. str_includes key disabledTerm) ds)
          then acc
          else (case map_of (tfields ty) key of
                  None \<Rightarrow> acc
                | Some fieldType \<Rightarrow>
                    (case getInnerSchemaType fieldType
                            \<lparr>type = None, array = False, nullable = True, name = key\<rparr> of
                       None \<Rightarrow> acc
                     | Some schema \<Rightarrow> acc @ [schema])))
     = (\<lambda>acc key. case flattenField options (tfields ty) key of
                     None \<Rightarrow> acc
                   | Some x \<Rightarrow> acc @ [x])"
    by (intro ext) (simp add: flattenField_def split: option.splits)
  then show ?thesis
    unfolding buildModelSchema_def getFields_def Let_def
    by (simp add: foldl_append_option)
qed

lemma flattenField_name: "flattenField options fieldMap key = Some d \<Longrightarrow> name d = key"
  by (auto simp: flattenField_def getInnerSchemaType_eq split: if_splits option.splits)

lemma set_map_filter: "set (List.map_filter f xs) = {y. \<exists>x \<in> set xs. f x = Some y}"
  by (induction xs) (auto simp: List.map_filter_simps split: option.splits)

lemma set_buildModelSchema:
  "set (buildModelSchema ty options)
     = {d. \<exists>key \<in> set (keys (tfields ty)). flattenField options (tfields ty) key = Some d}"
  by (simp add: buildModelSchema_map_filter set_map_filter)

lemma names_buildModelSchema:
  "name ` set (buildModelSchema ty options)
     = {key \<in> set (keys (tfields ty)). flattenField options (tfields ty) key \<noteq> None}"
proof (intro set_eqI iffI)
  fix key
  assume "key \<in> name ` set (buildModelSchema ty options)"
  then obtain d k where k: "k \<in> set (keys (tfields ty))"
    and d: "flattenField options (tfields ty) k = Some d" and n: "key = name d"
    by (auto simp: set_buildModelSchema)
  from flattenField_name[OF d] n have "k = key" by simp
  with k d show "key \<in> {key \<in> set (keys (tfields ty)).
      flattenField options (tfields ty) key \<noteq> None}"
    by simp
next
  fix key
  assume "key \<in> {key \<in> set (keys (tfields ty)).
      flattenField options (tfields ty) key \<noteq> None}"
  then obtain d where k: "key \<in> set (keys (tfields ty))"
    and d: "flattenField options (tfields ty) key = Some d"
    by auto
  from k d have "d \<in> set (buildModelSchema ty options)"
    by (auto simp: set_buildModelSchema)
  moreover from flattenField_name[OF d] have "name d = key" .
  ultimately show "key \<in> name ` set (buildModelSchema ty options)"
    by (metis imageI)
qed

lemma keys_spread_set: "fst ` set (spread_set acc key v) = insert key (fst ` set acc)"
  by (induction acc key v rule: spread_set.induct) auto

lemma foldl_spread_keys:
  "fst ` set (foldl (\<lambda>acc k. case f k of None \<Rightarrow> acc | Some v \<Rightarrow> spread_set acc k v) init ks)
     = fst ` set init \<union> {k \<in> set ks. f k \<noteq> None}"
  by (induction ks arbitrary: init) (auto simp: keys_spread_set split: option.splits)

lemma buildModelSchema_tables_fold:
  "buildModelSchema_tables ty options =
     foldl (\<lambda>acc k. case flattenField_tables options (tfields ty) k of
                      None \<Rightarrow> acc
                    | Some v \<Rightarrow> spread_set acc k v)
       [] (keys (tfields ty))"
proof -
  have "(\<lambda>acc key.
          if (truthy_boolean (disableAggregateFields options) \<and> str_includes key ''_aggregate'')
             \<or> (case disableFields_tables options of
                  None \<Rightarrow> False
                | Some ds \<Rightarrow> key \<in> set ds)
          then acc
          else (case map_of (tfields ty) key of
                  None \<Rightarrow> acc
                | Some fieldType \<Rightarrow>
                    (case getInnerSchemaType fieldType
                            \<lparr>type = None, array = False, nullable = True\<rparr> of
                       None \<Rightarrow> acc
                     | Some schema \<Rightarrow> spread_set acc key schema)))
     = (\<lambda>acc k. case flattenField_tables options (tfields ty) k of
                   None \<Rightarrow> acc
                 | Some v \<Rightarrow> spread_set acc k v)"
    by (intro ext) (simp add: flattenField_tables_def split: option.splits)
  then show ?thesis
    unfolding buildModelSchema_tables_def getFields_def Let_def by simp
qed

lemma names_buildModelSchema_tables:
  "fst ` set (buildModelSchema_tables ty options)
     = {key \<in> set (keys (tfields ty)). flattenField_tables options (tfields ty) key \<noteq> None}"
  by (simp add: buildModelSchema_tables_fold foldl_spread_keys)

lemma map_of_Some_keys: "map_of fieldMap key = Some t \<Longrightarrow> key \<in> set (keys fieldMap)"
  by (auto simp: keys_def dest: map_of_SomeD intro: rev_image_eqI)

section \<open>The reduce over the model names\<close>

lemma reduce_lookup:
  assumes step: "\<And>acc x acc'. f acc x = Inr acc' \<Longrightarrow> acc' = acc(x \<mapsto> g x)"
  shows "reduce f xs acc = Inr res \<Longrightarrow> res m = (if m \<in> set xs then Some (g m) else acc m)"
proof (induction xs arbitrary: acc)
  case Nil
  then show ?case by simp
next
  case (Cons x xs)
  from Cons.prems obtain acc' where a: "f acc x = Inr acc'" and r: "reduce f xs acc' = Inr res"
    by (auto split: sum.splits)
  from step[OF a] have acc': "acc' = acc(x \<mapsto> g x)" .
  from Cons.IH[OF r] show ?case by (auto simp: acc')
qed

lemma reduce_total:
  assumes step: "\<And>acc x. f acc x = Inr (acc(x \<mapsto> g x))"
  shows "\<exists>res. reduce f xs acc = Inr res"
  by (induction xs arbitrary: acc) (simp_all add: step)

lemma reduce_error:
  assumes fail: "\<And>acc. f acc x = Inl (h x)"
    and other: "\<And>acc y. (\<exists>acc'. f acc y = Inr acc') \<or> f acc y = Inl (h y)"
    and mem: "x \<in> set xs"
  shows "\<exists>y \<in> set xs. reduce f xs acc = Inl (h y)"
  using mem
proof (induction xs arbitrary: acc)
  case Nil
  then show ?case by simp
next
  case (Cons z zs)
  show ?case
  proof (cases "f acc z")
    case (Inl e)
    with other[of acc z] have "e = h z" by auto
    with Inl show ?thesis by simp
  next
    case (Inr acc')
    with fail have "z \<noteq> x" by auto
    with Cons.prems have "x \<in> set zs" by auto
    from Cons.IH[OF this, of acc'] Inr show ?thesis by auto
  qed
qed

lemma reduce_total_on:
  assumes step: "\<And>acc x. x \<in> set xs \<Longrightarrow> \<exists>acc'. f acc x = Inr acc'"
  shows "\<exists>res. reduce f xs acc = Inr res"
  using step
proof (induction xs arbitrary: acc)
  case Nil
  then show ?case by simp
next
  case (Cons x xs)
  from Cons.prems[of x acc] obtain acc' where a: "f acc x = Inr acc'" by auto
  have "\<exists>res. reduce f xs acc' = Inr res"
    by (rule Cons.IH) (simp add: Cons.prems)
  with a show ?case by simp
qed

section \<open>The per-model record in terms of the resolved handles\<close>

lemma object_slot:
  "(case (if isObjectType (getType schema a) then getType schema a else getType schema b) of
      None \<Rightarrow> d
    | Some t \<Rightarrow>
        if isObjectType (if isObjectType (getType schema a) then getType schema a
                         else getType schema b)
        then F t else d)
   = (case resolveHandle ObjectKind schema a b of None \<Rightarrow> d | Some t \<Rightarrow> F t)"
  by (auto simp: isObjectType_def getType_def resolveHandle_def lookupKind_def
      split: option.splits)

lemma input_slot:
  "(case (if isInputObjectType (getType schema a) then getType schema a else getType schema b) of
      None \<Rightarrow> d
    | Some t \<Rightarrow>
        if isInputObjectType (if isInputObjectType (getType schema a) then getType schema a
                              else getType schema b)
        then F t else d)
   = (case resolveHandle InputObjectKind schema a b of None \<Rightarrow> d | Some t \<Rightarrow> F t)"
  by (auto simp: isInputObjectType_def getType_def resolveHandle_def lookupKind_def
      split: option.splits)

lemma canDelete_of_iff:
  "canDelete_of mutationFields a b \<longleftrightarrow> a \<in> fst ` set mutationFields \<or> b \<in> fst ` set mutationFields"
  by (auto simp: canDelete_of_def map_of_eq_None_iff split: option.splits dest: map_of_SomeD
      intro: rev_image_eqI)

lemma result_model:
  "model (buildModelSchemas_result R schema mf options m)
     = (case resolveHandle ObjectKind schema (snake R m) (camel R m) of
          None \<Rightarrow> []
        | Some t \<Rightarrow> buildModelSchema t options)"
  by (simp add: buildModelSchemas_result_def Let_def object_slot)

lemma result_insertInput:
  "insertInput (buildModelSchemas_result R schema mf options m)
     = (case resolveHandle InputObjectKind schema (insertInputName R m)
               (camel R (insertInputName R m)) of
          None \<Rightarrow> []
        | Some t \<Rightarrow> buildModelSchema t options)"
  by (simp add: buildModelSchemas_result_def Let_def input_slot insertInputName_def)

lemma result_setInput:
  "setInput (buildModelSchemas_result R schema mf options m)
     = (case resolveHandle InputObjectKind schema (setInputName R m)
               (camel R (setInputName R m)) of
          None \<Rightarrow> []
        | Some t \<Rightarrow> buildModelSchema t options)"
  by (simp add: buildModelSchemas_result_def Let_def input_slot setInputName_def)

lemma result_primaryKeys:
  "primaryKeys (buildModelSchemas_result R schema mf options m)
     = (case resolveHandle InputObjectKind schema (pkColumnsName R m)
               (camel R (pkColumnsName R m)) of
          None \<Rightarrow> filter (\<lambda>f. name f \<in> set (primaryKeyNames options))
                    (model (buildModelSchemas_result R schema mf options m))
        | Some t \<Rightarrow> buildModelSchema t options)"
  by (auto simp: buildModelSchemas_result_def Let_def pkColumnsName_def resolveHandle_def
      lookupKind_def isObjectType_def isInputObjectType_def getType_def split: option.splits)

lemma result_permissions:
  "permissions (buildModelSchemas_result R schema mf options m)
     = \<lparr>insert_flag = (insertInput (buildModelSchemas_result R schema mf options m) \<noteq> []),
        update_flag = (setInput (buildModelSchemas_result R schema mf options m) \<noteq> []),
        delete_flag = (deleteName R m \<in> fst ` set mf \<or> camel R (deleteName R m) \<in> fst ` set mf),
        get_flag = (model (buildModelSchemas_result R schema mf options m) \<noteq> [])\<rparr>"
  by (simp add: buildModelSchemas_result_def Let_def canDelete_of_iff deleteName_def)

lemma tables_result_model:
  "model_tables (buildModelSchemas_tables_result R schema mf options m)
     = map_option (\<lambda>t. buildModelSchema_tables t options)
         (resolveHandle ObjectKind schema (snake R m) (camel R m))"
  by (simp add: buildModelSchemas_tables_result_def Let_def object_slot map_option_case)

lemma tables_result_insertInput:
  "insertInput_tables (buildModelSchemas_tables_result R schema mf options m)
     = map_option (\<lambda>t. buildModelSchema_tables t options)
         (resolveHandle InputObjectKind schema (insertInputName R m)
            (camel R (insertInputName R m)))"
  by (simp add: buildModelSchemas_tables_result_def Let_def input_slot insertInputName_def
      map_option_case)

lemma tables_result_setInput:
  "setInput_tables (buildModelSchemas_tables_result R schema mf options m)
     = map_option (\<lambda>t. buildModelSchema_tables t options)
         (resolveHandle InputObjectKind schema (setInputName R m)
            (camel R (setInputName R m)))"
  by (simp add: buildModelSchemas_tables_result_def Let_def input_slot setInputName_def
      map_option_case)

lemma tables_result_permissions:
  "permissions_tables (buildModelSchemas_tables_result R schema mf options m)
     = \<lparr>insert_flag =
          (insertInput_tables (buildModelSchemas_tables_result R schema mf options m) \<noteq> None),
        update_flag =
          (setInput_tables (buildModelSchemas_tables_result R schema mf options m) \<noteq> None),
        delete_flag =
          (deleteName R m \<in> fst ` set mf \<or> camel R (deleteName R m) \<in> fst ` set mf)\<rparr>"
  by (simp add: buildModelSchemas_tables_result_def Let_def canDelete_of_iff deleteName_def
      truthy_object_def split: option.splits)

section \<open>The batch\<close>

lemma buildModelSchemas_lookup:
  assumes "buildModelSchemas R ms schema options = Inr res" and "res m = Some r"
  shows "\<exists>mutation. getMutationType schema = Some mutation
           \<and> r = buildModelSchemas_result R schema (getFields mutation) options m"
proof -
  from assms(1) obtain mutation xs where mt: "getMutationType schema = Some mutation"
    and ms: "ms = Some xs"
    and red: "reduce (buildModelSchemas_callback R schema (getFields mutation) options) xs
                Map.empty = Inr res"
    by (auto simp: buildModelSchemas_def Let_def split: option.splits)
  have "res m = (if m \<in> set xs
                 then Some (buildModelSchemas_result R schema (getFields mutation) options m)
                 else Map.empty m)"
    by (rule reduce_lookup[OF _ red])
       (auto simp: buildModelSchemas_callback_def Let_def split: if_splits)
  with assms(2) mt show ?thesis by (auto split: if_splits)
qed

lemma buildModelSchemas_tables_lookup:
  assumes "buildModelSchemas_tables R ts schema options = Inr res" and "res m = Some r"
  shows "\<exists>mutation. getMutationType schema = Some mutation
           \<and> r = buildModelSchemas_tables_result R schema (getFields mutation) options m"
proof -
  from assms(1) obtain mutation xs where mt: "getMutationType schema = Some mutation"
    and ts: "ts = Some xs"
    and red: "reduce (buildModelSchemas_tables_callback R schema (getFields mutation) options) xs
                Map.empty = Inr res"
    by (auto simp: buildModelSchemas_tables_def Let_def split: option.splits)
  have "res m = (if m \<in> set xs
                 then Some (buildModelSchemas_tables_result R schema (getFields mutation) options m)
                 else Map.empty m)"
    by (rule reduce_lookup[OF _ red])
       (auto simp: buildModelSchemas_tables_callback_def Let_def split: if_splits)
  with assms(2) mt show ?thesis by (auto split: if_splits)
qed

lemma buildModelSchemas_never_model_error:
  "buildModelSchemas R ms schema options \<noteq> Inl (Error msg)"
proof (cases "getMutationType schema")
  case None
  then show ?thesis by (simp add: buildModelSchemas_def)
next
  case (Some mutation)
  show ?thesis
  proof (cases ms)
    case None
    with Some show ?thesis by (simp add: buildModelSchemas_def)
  next
    case (Some xs)
    have "\<exists>res. reduce (buildModelSchemas_callback R schema (getFields mutation) options) xs
            Map.empty = Inr res"
      by (rule reduce_total[where g = "buildModelSchemas_result R schema (getFields mutation) options"])
         (simp add: buildModelSchemas_callback_def truthy_array_def)
    with Some \<open>getMutationType schema = Some mutation\<close> show ?thesis
      by (auto simp: buildModelSchemas_def)
  qed
qed

lemma buildModelSchemas_tables_unresolved:
  assumes mt: "getMutationType schema = Some mutation"
    and mem: "m \<in> set ts"
    and r1: "resolveHandle ObjectKind schema (snake R m) (camel R m) = None"
    and r2: "resolveHandle InputObjectKind schema (insertInputName R m)
               (camel R (insertInputName R m)) = None"
    and r3: "resolveHandle InputObjectKind schema (setInputName R m)
               (camel R (setInputName R m)) = None"
  shows "\<exists>n \<in> set ts. buildModelSchemas_tables R (Some ts) schema options = Inl (model_error n)"
proof -
  let ?f = "buildModelSchemas_tables_callback R schema (getFields mutation) options"
  have fail: "\<And>acc. ?f acc m = Inl (model_error m)"
    using r1 r2 r3
    by (simp add: buildModelSchemas_tables_callback_def tables_result_model
        tables_result_insertInput tables_result_setInput truthy_object_def)
  have other: "\<And>acc y. (\<exists>acc'. ?f acc y = Inr acc') \<or> ?f acc y = Inl (model_error y)"
    by (simp add: buildModelSchemas_tables_callback_def Let_def)
  from reduce_error[of ?f m model_error, OF fail other mem]
  show ?thesis using mt by (simp add: buildModelSchemas_tables_def)
qed

lemma buildModelSchemas_Inr:
  assumes "buildModelSchemas R ms schema options = Inr res"
  shows "\<exists>mutation xs. getMutationType schema = Some mutation \<and> ms = Some xs
           \<and> dom res = set xs
           \<and> (\<forall>m \<in> set xs. res m
                  = Some (buildModelSchemas_result R schema (getFields mutation) options m))"
proof -
  from assms obtain mutation xs where mt: "getMutationType schema = Some mutation"
    and ms: "ms = Some xs"
    and red: "reduce (buildModelSchemas_callback R schema (getFields mutation) options) xs
                Map.empty = Inr res"
    by (auto simp: buildModelSchemas_def Let_def split: option.splits)
  have look: "\<And>m. res m = (if m \<in> set xs
                 then Some (buildModelSchemas_result R schema (getFields mutation) options m)
                 else Map.empty m)"
    by (rule reduce_lookup[OF _ red])
       (auto simp: buildModelSchemas_callback_def Let_def split: if_splits)
  have "dom res = set xs"
    by (auto simp: dom_def look)
  with mt ms look show ?thesis by auto
qed

lemma buildModelSchemas_tables_Inr:
  assumes "buildModelSchemas_tables R ts schema options = Inr res"
  shows "\<exists>mutation xs. getMutationType schema = Some mutation \<and> ts = Some xs
           \<and> dom res = set xs
           \<and> (\<forall>m \<in> set xs. res m
                  = Some (buildModelSchemas_tables_result R schema (getFields mutation) options m))"
proof -
  from assms obtain mutation xs where mt: "getMutationType schema = Some mutation"
    and ts: "ts = Some xs"
    and red: "reduce (buildModelSchemas_tables_callback R schema (getFields mutation) options) xs
                Map.empty = Inr res"
    by (auto simp: buildModelSchemas_tables_def Let_def split: option.splits)
  have look: "\<And>m. res m = (if m \<in> set xs
                 then Some (buildModelSchemas_tables_result R schema (getFields mutation) options m)
                 else Map.empty m)"
    by (rule reduce_lookup[OF _ red])
       (auto simp: buildModelSchemas_tables_callback_def Let_def split: if_splits)
  have "dom res = set xs"
    by (auto simp: dom_def look)
  with mt ts look show ?thesis by auto
qed

lemma buildModelSchemas_total:
  assumes "getMutationType schema = Some mutation"
  shows "\<exists>res. buildModelSchemas R (Some xs) schema options = Inr res"
proof -
  have "\<exists>res. reduce (buildModelSchemas_callback R schema (getFields mutation) options) xs
            Map.empty = Inr res"
    by (rule reduce_total[where g = "buildModelSchemas_result R schema (getFields mutation) options"])
       (simp add: buildModelSchemas_callback_def truthy_array_def)
  with assms show ?thesis by (simp add: buildModelSchemas_def)
qed

lemma tables_callback_resolved:
  assumes "resolvesAny R schema m"
  shows "buildModelSchemas_tables_callback R schema mf options acc m
           = Inr (acc(m \<mapsto> buildModelSchemas_tables_result R schema mf options m))"
  using assms
  by (auto simp: buildModelSchemas_tables_callback_def Let_def resolvesAny_def
      tables_result_model tables_result_insertInput tables_result_setInput truthy_object_def
      split: option.splits)

lemma tables_callback_unresolved:
  assumes "\<not> resolvesAny R schema m"
  shows "buildModelSchemas_tables_callback R schema mf options acc m = Inl (model_error m)"
  using assms
  by (auto simp: buildModelSchemas_tables_callback_def Let_def resolvesAny_def
      tables_result_model tables_result_insertInput tables_result_setInput truthy_object_def
      split: option.splits)

lemma buildModelSchemas_tables_total:
  assumes "getMutationType schema = Some mutation"
    and "list_all (resolvesAny R schema) xs"
  shows "\<exists>res. buildModelSchemas_tables R (Some xs) schema options = Inr res"
proof -
  have step: "\<And>acc x. x \<in> set xs \<Longrightarrow>
      \<exists>acc'. buildModelSchemas_tables_callback R schema (getFields mutation) options acc x
               = Inr acc'"
    using assms(2) by (auto simp: list_all_iff tables_callback_resolved)
  have "\<exists>res. reduce (buildModelSchemas_tables_callback R schema (getFields mutation) options) xs
            Map.empty = Inr res"
    by (rule reduce_total_on) (rule step)
  with assms(1) show ?thesis by (simp add: buildModelSchemas_tables_def)
qed

section \<open>The example, evaluated\<close>

lemmas example_defs =
  getMutationType_def getType_def getFields_def example_schema_def example_radash_def
  example_options_def example_options_tables_def example_config_def
  example_user_record_def example_user_record_tables_def
  isObjectType_def isInputObjectType_def canDelete_of_def
  truthy_array_def truthy_object_def truthy_boolean_def
  mutation_root_def user_type_def user_insert_input_type_def keys_def Let_def

lemma example_run:
  "buildModelSchemas example_radash (Some [''user'']) example_schema example_options
     = Inr [''user'' \<mapsto> example_user_record]"
  by (simp add: buildModelSchemas_def buildModelSchemas_callback_def
      buildModelSchemas_result_def buildModelSchema_def example_defs)

lemma example_run_tables:
  "buildModelSchemas_tables example_radash (Some [''user'']) example_schema
       example_options_tables
     = Inr [''user'' \<mapsto> example_user_record_tables]"
  by (simp add: buildModelSchemas_tables_def buildModelSchemas_tables_callback_def
      buildModelSchemas_tables_result_def buildModelSchema_tables_def example_defs)

lemma example_plugin:
  "plugin example_radash example_schema example_config = Inr [''user'' \<mapsto> example_user_record]"
  by (simp add: plugin_def buildModelSchemas_def buildModelSchemas_callback_def
      buildModelSchemas_result_def buildModelSchema_def example_defs)

lemma hasMutationField_iff:
  "getMutationType schema = Some mutation
     \<Longrightarrow> hasMutationField schema n \<longleftrightarrow> n \<in> fst ` set (getFields mutation)"
  by (simp add: hasMutationField_def)

lemmas two_model_defs =
  two_model_radash_def two_model_schema_def two_model_mutation_root_def two_model_config_def
  role_type_def role_set_input_type_def role_pk_columns_input_type_def
  example_role_record_def example_role_record_tables_def

lemma two_model_run:
  "buildModelSchemas two_model_radash (Some [''user'', ''role'']) two_model_schema example_options
     = Inr [''user'' \<mapsto> example_user_record, ''role'' \<mapsto> example_role_record]"
  by (simp add: buildModelSchemas_def buildModelSchemas_callback_def
      buildModelSchemas_result_def buildModelSchema_def example_defs two_model_defs)

lemma two_model_run_tables:
  "buildModelSchemas_tables two_model_radash (Some [''user'', ''role'']) two_model_schema
       example_options_tables
     = Inr [''user'' \<mapsto> example_user_record_tables, ''role'' \<mapsto> example_role_record_tables]"
  by (simp add: buildModelSchemas_tables_def buildModelSchemas_tables_callback_def
      buildModelSchemas_tables_result_def buildModelSchema_tables_def example_defs
      two_model_defs)

lemma two_model_plugin:
  "plugin two_model_radash two_model_schema two_model_config
     = Inr [''user'' \<mapsto> example_user_record, ''role'' \<mapsto> example_role_record]"
  by (simp add: plugin_def buildModelSchemas_def buildModelSchemas_callback_def
      buildModelSchemas_result_def buildModelSchema_def example_defs two_model_defs)

lemma two_model_mutation: "getMutationType two_model_schema = Some two_model_mutation_root"
  by (simp add: getMutationType_def two_model_schema_def)

lemma two_model_handles:
  "resolveHandle ObjectKind two_model_schema (snake two_model_radash ''role'')
     (camel two_model_radash ''role'') = Some role_type"
  "resolveHandle InputObjectKind two_model_schema (insertInputName two_model_radash ''role'')
     (camel two_model_radash (insertInputName two_model_radash ''role'')) = None"
  "resolveHandle InputObjectKind two_model_schema (setInputName two_model_radash ''role'')
     (camel two_model_radash (setInputName two_model_radash ''role'')) = Some role_set_input_type"
  "resolveHandle InputObjectKind two_model_schema (pkColumnsName two_model_radash ''role'')
     (camel two_model_radash (pkColumnsName two_model_radash ''role''))
     = Some role_pk_columns_input_type"
  "resolveHandle ObjectKind two_model_schema (snake two_model_radash ''user'')
     (camel two_model_radash ''user'') = Some user_type"
  "resolveHandle InputObjectKind two_model_schema (pkColumnsName two_model_radash ''user'')
     (camel two_model_radash (pkColumnsName two_model_radash ''user'')) = None"
  by (simp_all add: resolveHandle_def lookupKind_def insertInputName_def setInputName_def
      pkColumnsName_def two_model_schema_def two_model_radash_def role_type_def
      role_set_input_type_def role_pk_columns_input_type_def user_type_def)

section \<open>Validation\<close>

lemma validate_maxDepth_fails_iff:
  "validate_maxDepth d = Inl e \<longleftrightarrow>
     (\<exists>n. d = Some n \<and> n < 0) \<and> e = Error ''maxDepth must be larger than 0''"
  by (auto simp: validate_maxDepth_def truthy_number_def split: option.splits)

text \<open>
  Claim C2: \<^verbatim>\<open>validate\<close> fails with a configuration error exactly when \<^verbatim>\<open>maxDepth\<close> is
  present and less than or equal to 0, in particular when it is 0. The code's guard
  \<^verbatim>\<open>_config.maxDepth && ...\<close> is falsy at 0, so a configuration with \<^verbatim>\<open>maxDepth: 0\<close>
  passes validation in both files, against the message \<^verbatim>\<open>maxDepth must be larger than 0\<close>
  and the comparison \<^verbatim>\<open><= 0\<close> of the same line: whatever the other options are,
  \<^verbatim>\<open>validate\<close> returns without an error at \<^verbatim>\<open>maxDepth = 0\<close>. (Lemma
  \<open>validate_maxDepth_fails_iff\<close>: it fails exactly for the negative values.)
\<close>

theorem validate_accepts_zero:
  "validate (config\<lparr>maxDepth := Some 0\<rparr>) = Inr ()
   \<and> validate_tables (config'\<lparr>maxDepth_tables := Some 0\<rparr>) = Inr ()"
  by (simp add: validate_def validate_tables_def validate_maxDepth_def truthy_number_def)


section \<open>Properties of the unwrap routine\<close>

text \<open>
  Claim C3, as stated: on \<^verbatim>\<open>[String!]\<close> the unwrap routine yields \<^verbatim>\<open>nullable = true\<close>.
  It does not: the non-null wrapper inside the list sets \<^verbatim>\<open>nullable\<close> to false.
\<close>

theorem unwrap_list_of_non_null_counterexample:
  "getInnerSchemaType (ListType (NonNullType (NamedType ScalarKind ''String'')))
       \<lparr>type = None, array = False, nullable = True, name = ''roles''\<rparr>
     = Some \<lparr>type = Some ''String'', array = True, nullable = False, name = ''roles''\<rparr>"
  by simp

text \<open>
  Claim C3, amended: for a scalar or enum \<open>T\<close>, the shape \<^verbatim>\<open>[T!]\<close> yields
  \<^verbatim>\<open>nullable = false\<close>, \<^verbatim>\<open>array = true\<close>, \<^verbatim>\<open>type = T\<close>; and whenever the routine
  yields a descriptor, \<^verbatim>\<open>nullable\<close> is true exactly when it was true before and no non-null
  wrapper occurs at any level of the type, and \<^verbatim>\<open>array\<close> is true exactly when it was
  true before or a list wrapper occurs at any level.
\<close>

theorem unwrap_nullable_cumulative:
  assumes "k = ScalarKind \<or> k = EnumKind"
    and "getInnerSchemaType t acc = Some d"
  shows "getInnerSchemaType (ListType (NonNullType (NamedType k T)))
             \<lparr>type = None, array = False, nullable = True, \<dots> = rest\<rparr>
           = Some \<lparr>type = Some T, array = True, nullable = False, \<dots> = rest\<rparr>
         \<and> (nullable d \<longleftrightarrow> nullable acc \<and> \<not> hasNonNull t)
         \<and> (array d \<longleftrightarrow> array acc \<or> hasList t)"
proof -
  have "getInnerSchemaType (ListType (NonNullType (NamedType k T)))
             \<lparr>type = None, array = False, nullable = True, \<dots> = rest\<rparr>
           = Some \<lparr>type = Some T, array = True, nullable = False, \<dots> = rest\<rparr>"
    using assms(1) by auto
  moreover have "nullable d \<longleftrightarrow> nullable acc \<and> \<not> hasNonNull t"
    using assms(2) by (auto simp: getInnerSchemaType_eq split: if_splits)
  moreover have "array d \<longleftrightarrow> array acc \<or> hasList t"
    using assms(2) by (auto simp: getInnerSchemaType_eq split: if_splits)
  ultimately show ?thesis by simp
qed

theorem unwrap_nullable_cumulative_witness:
  "(ScalarKind = ScalarKind \<or> ScalarKind = EnumKind)
   \<and> getInnerSchemaType (ListType (NonNullType (NamedType ScalarKind ''String'')))
        \<lparr>type = None, array = False, nullable = True\<rparr>
      = Some \<lparr>type = Some ''String'', array = True, nullable = False\<rparr>
   \<and> \<not> nullable \<lparr>type = Some ''String'', array = True, nullable = False\<rparr>
   \<and> hasNonNull (ListType (NonNullType (NamedType ScalarKind ''String'')))"
  using unwrap_nullable_cumulative [of ScalarKind
      "ListType (NonNullType (NamedType ScalarKind ''String''))"
      "\<lparr>type = None, array = False, nullable = True\<rparr>"
      "\<lparr>type = Some ''String'', array = True, nullable = False\<rparr>" "''String''" "()"]
  by simp

text \<open>
  Claim C4: for a scalar or enum type \<open>T\<close>, from the initial descriptor of the
  flatteners (\<^verbatim>\<open>array: false\<close>, \<^verbatim>\<open>nullable: true\<close>, \<^verbatim>\<open>type: null\<close>, with or without a
  \<^verbatim>\<open>name\<close>): \<^verbatim>\<open>[T]\<close> gives array and nullable, \<^verbatim>\<open>[T]!\<close> gives array and not nullable,
  \<^verbatim>\<open>T!\<close> gives neither, and \<^verbatim>\<open>T\<close> gives nullable and not array, each with type \<open>T\<close>.
\<close>

theorem unwrap_shapes:
  assumes "k = ScalarKind \<or> k = EnumKind"
  shows "getInnerSchemaType (ListType (NamedType k T))
             \<lparr>type = None, array = False, nullable = True, \<dots> = rest\<rparr>
           = Some \<lparr>type = Some T, array = True, nullable = True, \<dots> = rest\<rparr>
         \<and> getInnerSchemaType (NonNullType (ListType (NamedType k T)))
             \<lparr>type = None, array = False, nullable = True, \<dots> = rest\<rparr>
           = Some \<lparr>type = Some T, array = True, nullable = False, \<dots> = rest\<rparr>
         \<and> getInnerSchemaType (NonNullType (NamedType k T))
             \<lparr>type = None, array = False, nullable = True, \<dots> = rest\<rparr>
           = Some \<lparr>type = Some T, array = False, nullable = False, \<dots> = rest\<rparr>
         \<and> getInnerSchemaType (NamedType k T)
             \<lparr>type = None, array = False, nullable = True, \<dots> = rest\<rparr>
           = Some \<lparr>type = Some T, array = False, nullable = True, \<dots> = rest\<rparr>"
  using assms by auto

theorem unwrap_shapes_witness:
  "(EnumKind = ScalarKind \<or> EnumKind = EnumKind)
   \<and> getInnerSchemaType (ListType (NamedType EnumKind ''role_enum''))
        \<lparr>type = None, array = False, nullable = True, name = ''role''\<rparr>
      = Some \<lparr>type = Some ''role_enum'', array = True, nullable = True, name = ''role''\<rparr>
   \<and> getInnerSchemaType (NonNullType (ListType (NamedType EnumKind ''role_enum'')))
        \<lparr>type = None, array = False, nullable = True, name = ''role''\<rparr>
      = Some \<lparr>type = Some ''role_enum'', array = True, nullable = False, name = ''role''\<rparr>
   \<and> getInnerSchemaType (NonNullType (NamedType EnumKind ''role_enum''))
        \<lparr>type = None, array = False, nullable = True, name = ''role''\<rparr>
      = Some \<lparr>type = Some ''role_enum'', array = False, nullable = False, name = ''role''\<rparr>
   \<and> getInnerSchemaType (NamedType EnumKind ''role_enum'')
        \<lparr>type = None, array = False, nullable = True, name = ''role''\<rparr>
      = Some \<lparr>type = Some ''role_enum'', array = False, nullable = True, name = ''role''\<rparr>"
  using unwrap_shapes [of EnumKind "''role_enum''" "\<lparr>name = ''role''\<rparr>"]
  by simp


section \<open>Properties of the flatteners\<close>

text \<open>
  Claim C5: a field of a type whose own type unwraps, through any chain of non-null and
  list wrappers, to an object type or an input-object type is absent from the result of
  \<^verbatim>\<open>buildModelSchema\<close>, in the list variant (no descriptor of that name) and in the map
  variant (no such key).
\<close>

theorem nested_field_absent:
  assumes "map_of (getFields modelType) key = Some fieldType"
    and "unwrapsToObject fieldType"
  shows "key \<notin> name ` set (buildModelSchema modelType options)
         \<and> key \<notin> fst ` set (buildModelSchema_tables modelType options')"
  using assms
  by (simp add: names_buildModelSchema names_buildModelSchema_tables getFields_def
      flattenField_def flattenField_tables_def getInnerSchemaType_eq)

theorem nested_field_absent_witness:
  "map_of (getFields user_type) ''profile'' = Some (NamedType ObjectKind ''profile'')
   \<and> unwrapsToObject (NamedType ObjectKind ''profile'')
   \<and> ''profile'' \<notin> name ` set (buildModelSchema user_type example_options)
   \<and> ''profile'' \<notin> fst ` set (buildModelSchema_tables user_type example_options_tables)"
proof -
  have h1: "map_of (getFields user_type) ''profile'' = Some (NamedType ObjectKind ''profile'')"
    by (simp add: getFields_def user_type_def)
  have h2: "unwrapsToObject (NamedType ObjectKind ''profile'')"
    by (simp add: unwrapsToObject_def)
  from nested_field_absent [OF h1 h2, of example_options example_options_tables] h1 h2
  show ?thesis by simp
qed

text \<open>
  Claim C10: when \<^verbatim>\<open>disableFields\<close> is absent, \<^verbatim>\<open>buildModelSchema\<close> returns what it
  returns for the empty list of disabled names, in both variants, and a field whose type
  does not unwrap to an object is in the result: always in the list variant, and in the
  map variant unless \<^verbatim>\<open>disableAggregateFields\<close> is set and the name contains
  \<^verbatim>\<open>_aggregate\<close>. (The model of \<^verbatim>\<open>buildModelSchema\<close> is a total function: no branch of
  the source raises.)
\<close>

theorem disableFields_absent:
  assumes "disableFields options = None"
    and "disableFields_tables options' = None"
    and "map_of (getFields modelType) key = Some fieldType"
    and "\<not> unwrapsToObject fieldType"
  shows "buildModelSchema modelType options
           = buildModelSchema modelType (options\<lparr>disableFields := Some []\<rparr>)
         \<and> buildModelSchema_tables modelType options'
           = buildModelSchema_tables modelType (options'\<lparr>disableFields_tables := Some []\<rparr>)
         \<and> key \<in> name ` set (buildModelSchema modelType options)
         \<and> ((truthy_boolean (disableAggregateFields options') \<and> str_includes key ''_aggregate'')
            \<or> key \<in> fst ` set (buildModelSchema_tables modelType options'))"
proof -
  have e1: "buildModelSchema modelType options
           = buildModelSchema modelType (options\<lparr>disableFields := Some []\<rparr>)"
    using assms(1) by (simp add: buildModelSchema_def)
  have e2: "buildModelSchema_tables modelType options'
           = buildModelSchema_tables modelType (options'\<lparr>disableFields_tables := Some []\<rparr>)"
    using assms(2) by (simp add: buildModelSchema_tables_def)
  have k: "key \<in> set (keys (tfields modelType))"
    using assms(3) by (simp add: getFields_def map_of_Some_keys)
  have m1: "key \<in> name ` set (buildModelSchema modelType options)"
    using assms k
    by (simp add: names_buildModelSchema flattenField_def getFields_def getInnerSchemaType_eq)
  have m2: "(truthy_boolean (disableAggregateFields options') \<and> str_includes key ''_aggregate'')
            \<or> key \<in> fst ` set (buildModelSchema_tables modelType options')"
    using assms k
    by (simp add: names_buildModelSchema_tables flattenField_tables_def getFields_def
        getInnerSchemaType_eq)
  from e1 e2 m1 m2 show ?thesis by simp
qed

theorem disableFields_absent_witness:
  "disableFields example_options = None
   \<and> disableFields_tables example_options_tables = None
   \<and> map_of (getFields user_type) ''name'' = Some (NamedType ScalarKind ''String'')
   \<and> \<not> unwrapsToObject (NamedType ScalarKind ''String'')
   \<and> ''name'' \<in> name ` set (buildModelSchema user_type example_options)
   \<and> ''name'' \<in> fst ` set (buildModelSchema_tables user_type example_options_tables)"
proof -
  have h1: "disableFields example_options = None" by (simp add: example_options_def)
  have h2: "disableFields_tables example_options_tables = None"
    by (simp add: example_options_tables_def)
  have h3: "map_of (getFields user_type) ''name'' = Some (NamedType ScalarKind ''String'')"
    by (simp add: getFields_def user_type_def)
  have h4: "\<not> unwrapsToObject (NamedType ScalarKind ''String'')"
    by (simp add: unwrapsToObject_def)
  have a: "\<not> truthy_boolean (disableAggregateFields example_options_tables)"
    by (simp add: example_options_tables_def truthy_boolean_def)
  from disableFields_absent [OF h1 h2 h3 h4]
  have c: "''name'' \<in> name ` set (buildModelSchema user_type example_options)"
    and d: "(truthy_boolean (disableAggregateFields example_options_tables)
               \<and> str_includes ''name'' ''_aggregate'')
            \<or> ''name'' \<in> fst ` set (buildModelSchema_tables user_type example_options_tables)"
    by blast+
  from d a have "''name'' \<in> fst ` set (buildModelSchema_tables user_type example_options_tables)"
    by blast
  with c h1 h2 h3 h4 show ?thesis by blast
qed


section \<open>Properties of the batch\<close>

text \<open>
  Claim C9: on a schema without a mutation type both variants fail, whatever the model
  names are and whether or not their types resolve: the \<^verbatim>\<open>TypeError\<close> of
  \<^verbatim>\<open>schema.getMutationType().getFields()\<close> is the result of \<^verbatim>\<open>buildModelSchemas\<close> and of
  \<^verbatim>\<open>plugin\<close>.
\<close>

theorem no_mutation_type_fails:
  assumes "getMutationType schema = None"
  shows "buildModelSchemas R ms schema options = Inl TypeError
         \<and> buildModelSchemas_tables R ts schema options' = Inl TypeError
         \<and> plugin R schema config = Inl TypeError
         \<and> plugin_tables R schema config' = Inl TypeError"
  using assms
  by (simp add: buildModelSchemas_def buildModelSchemas_tables_def plugin_def plugin_tables_def)

theorem no_mutation_type_fails_witness:
  "getMutationType (example_schema\<lparr>mutationType := None\<rparr>) = None
   \<and> buildModelSchemas example_radash (Some [''user''])
        (example_schema\<lparr>mutationType := None\<rparr>) example_options = Inl TypeError
   \<and> buildModelSchemas_tables example_radash (Some [''user''])
        (example_schema\<lparr>mutationType := None\<rparr>) example_options_tables = Inl TypeError"
proof -
  have h: "getMutationType (example_schema\<lparr>mutationType := None\<rparr>) = None"
    by (simp add: getMutationType_def)
  from no_mutation_type_fails [OF h, of example_radash "Some [''user'']" example_options
      "Some [''user'']" example_options_tables] h
  show ?thesis by simp
qed

section \<open>Properties of the per-model records\<close>

text \<open>
  Claim C1: a model name of which neither the model type nor the insert-input type nor
  the set-input type resolves makes \<^verbatim>\<open>buildModelSchemas\<close> raise the model-resolution
  error naming it, in both variants. In src/src/index.ts the three collections are arrays,
  \<^verbatim>\<open>[]\<close> when the type is missing, and \<^verbatim>\<open>![]\<close> is false: the \<^verbatim>\<open>throw\<close> is never
  reached (lemma \<open>buildModelSchemas_never_model_error\<close>). On the example schema the
  unknown model \<^verbatim>\<open>ghost\<close> gets a record of empty lists and no error; the variant of
  src/unnamed/part\_000, whose missing collections are \<^verbatim>\<open>null\<close>, raises the error there
  (lemmas \<open>unresolved_model_error_tables\<close> and \<open>buildModelSchemas_tables_unresolved\<close>).
\<close>

theorem unresolved_model_no_error:
  "buildModelSchemas example_radash (Some [''ghost'']) example_schema example_options
     = Inr [''ghost'' \<mapsto>
         \<lparr>primaryKeys = [],
          permissions =
            \<lparr>insert_flag = False, update_flag = False, delete_flag = False,
             get_flag = False\<rparr>,
          model = [], insertInput = [], setInput = []\<rparr>]"
  by (simp add: buildModelSchemas_def buildModelSchemas_callback_def
      buildModelSchemas_result_def buildModelSchema_def example_defs)

lemma unresolved_model_error_tables:
  "buildModelSchemas_tables example_radash (Some [''ghost'']) example_schema
       example_options_tables
     = Inl (model_error ''ghost'')"
  by (simp add: buildModelSchemas_tables_def buildModelSchemas_tables_callback_def
      buildModelSchemas_tables_result_def buildModelSchema_tables_def example_defs)

text \<open>
  Claim C6, as stated: in either variant \<^verbatim>\<open>insert\<close> is true exactly when the flattened
  insert-input collection is non-empty. In the map variant the flag is
  \<^verbatim>\<open>Boolean(insertInput)\<close>, true for every resolved type: with the only field of
  \<^verbatim>\<open>user_insert_input\<close> disabled the collection is the empty object and \<^verbatim>\<open>insert\<close> is
  true.
\<close>

theorem permissions_tables_counterexample:
  "buildModelSchemas_tables example_radash (Some [''user'']) example_schema
       \<lparr>disableAggregateFields = None, disableFields_tables = Some [''name'']\<rparr>
     = Inr [''user'' \<mapsto>
         \<lparr>permissions_tables =
            \<lparr>insert_flag = True, update_flag = False, delete_flag = False\<rparr>,
          model_tables = Some
            [(''id'', \<lparr>type = Some ''ID'', array = False, nullable = False\<rparr>),
             (''roles'', \<lparr>type = Some ''String'', array = True, nullable = False\<rparr>)],
          insertInput_tables = Some [],
          setInput_tables = None\<rparr>]"
  by (simp add: buildModelSchemas_tables_def buildModelSchemas_tables_callback_def
      buildModelSchemas_tables_result_def buildModelSchema_tables_def example_defs)

text \<open>
  Claim C6, amended: in every record of the list variant, \<^verbatim>\<open>get\<close>, \<^verbatim>\<open>insert\<close> and
  \<^verbatim>\<open>update\<close> are true exactly when the lists \<^verbatim>\<open>model\<close>, \<^verbatim>\<open>insertInput\<close> and \<^verbatim>\<open>setInput\<close>
  are non-empty; in every record of the map variant, \<^verbatim>\<open>insert\<close> and \<^verbatim>\<open>update\<close> are true
  exactly when \<^verbatim>\<open>insertInput\<close> and \<^verbatim>\<open>setInput\<close> are not \<^verbatim>\<open>null\<close>, that is, when their
  types resolved, with or without entries; in both, \<^verbatim>\<open>delete\<close> is true exactly when the
  mutation type has a field named \<^verbatim>\<open>delete_<model>\<close> or its camelCase form, whatever the
  model type does. The two variants are stated apart, each for any result of its own
  batch.
\<close>

theorem permission_flags:
  "(buildModelSchemas R ms schema options = Inr res \<and> res modelName = Some r \<longrightarrow>
      (get_flag (permissions r) \<longleftrightarrow> model r \<noteq> [])
      \<and> (insert_flag (permissions r) \<longleftrightarrow> insertInput r \<noteq> [])
      \<and> (update_flag (permissions r) \<longleftrightarrow> setInput r \<noteq> [])
      \<and> (delete_flag (permissions r) \<longleftrightarrow>
            hasMutationField schema (deleteName R modelName)
            \<or> hasMutationField schema (camel R (deleteName R modelName))))
   \<and> (buildModelSchemas_tables R' ts schema' options' = Inr res' \<and> res' tableName = Some r' \<longrightarrow>
      (insert_flag (permissions_tables r') \<longleftrightarrow> insertInput_tables r' \<noteq> None)
      \<and> (update_flag (permissions_tables r') \<longleftrightarrow> setInput_tables r' \<noteq> None)
      \<and> (delete_flag (permissions_tables r') \<longleftrightarrow>
            hasMutationField schema' (deleteName R' tableName)
            \<or> hasMutationField schema' (camel R' (deleteName R' tableName))))"
proof (intro conjI impI)
  assume a: "buildModelSchemas R ms schema options = Inr res \<and> res modelName = Some r"
  from a buildModelSchemas_lookup[of R ms schema options res modelName r] obtain mutation
    where mt: "getMutationType schema = Some mutation"
      and r: "r = buildModelSchemas_result R schema (getFields mutation) options modelName"
    by blast
  show "get_flag (permissions r) \<longleftrightarrow> model r \<noteq> []"
    unfolding r by (simp add: result_permissions)
  show "insert_flag (permissions r) \<longleftrightarrow> insertInput r \<noteq> []"
    unfolding r by (simp add: result_permissions)
  show "update_flag (permissions r) \<longleftrightarrow> setInput r \<noteq> []"
    unfolding r by (simp add: result_permissions)
  show "delete_flag (permissions r) \<longleftrightarrow>
            hasMutationField schema (deleteName R modelName)
            \<or> hasMutationField schema (camel R (deleteName R modelName))"
    unfolding r by (simp add: result_permissions hasMutationField_iff[OF mt])
next
  assume a: "buildModelSchemas_tables R' ts schema' options' = Inr res' \<and> res' tableName = Some r'"
  from a buildModelSchemas_tables_lookup[of R' ts schema' options' res' tableName r']
  obtain mutation
    where mt: "getMutationType schema' = Some mutation"
      and r: "r' = buildModelSchemas_tables_result R' schema' (getFields mutation) options'
                     tableName"
    by blast
  show "insert_flag (permissions_tables r') \<longleftrightarrow> insertInput_tables r' \<noteq> None"
    unfolding r by (simp add: tables_result_permissions)
  show "update_flag (permissions_tables r') \<longleftrightarrow> setInput_tables r' \<noteq> None"
    unfolding r by (simp add: tables_result_permissions)
  show "delete_flag (permissions_tables r') \<longleftrightarrow>
            hasMutationField schema' (deleteName R' tableName)
            \<or> hasMutationField schema' (camel R' (deleteName R' tableName))"
    unfolding r by (simp add: tables_result_permissions hasMutationField_iff[OF mt])
qed

theorem permission_flags_witness:
  "buildModelSchemas example_radash (Some [''user'']) example_schema example_options
     = Inr [''user'' \<mapsto> example_user_record]
   \<and> [''user'' \<mapsto> example_user_record] ''user'' = Some example_user_record
   \<and> buildModelSchemas_tables example_radash (Some [''user'']) example_schema
        example_options_tables
     = Inr [''user'' \<mapsto> example_user_record_tables]
   \<and> [''user'' \<mapsto> example_user_record_tables] ''user'' = Some example_user_record_tables
   \<and> (get_flag (permissions example_user_record) \<longleftrightarrow> model example_user_record \<noteq> [])
   \<and> (update_flag (permissions example_user_record)
        \<longleftrightarrow> setInput example_user_record \<noteq> [])
   \<and> (delete_flag (permissions example_user_record) \<longleftrightarrow>
         hasMutationField example_schema (deleteName example_radash ''user'')
         \<or> hasMutationField example_schema
              (camel example_radash (deleteName example_radash ''user'')))
   \<and> (insert_flag (permissions_tables example_user_record_tables)
        \<longleftrightarrow> insertInput_tables example_user_record_tables \<noteq> None)"
proof -
  have h2: "[''user'' \<mapsto> example_user_record] ''user'' = Some example_user_record"
    by simp
  have h4: "[''user'' \<mapsto> example_user_record_tables] ''user''
              = Some example_user_record_tables"
    by simp
  from permission_flags [of example_radash "Some [''user'']" example_schema example_options
      "[''user'' \<mapsto> example_user_record]" "''user''" example_user_record
      example_radash "Some [''user'']" example_schema example_options_tables
      "[''user'' \<mapsto> example_user_record_tables]" "''user''" example_user_record_tables]
    example_run h2 example_run_tables h4
  show ?thesis by blast
qed

text \<open>
  Claim C7: in the variant with primary keys, when the plugin returns, its result has a
  record for every requested model and for no other name, and in every record: if the
  pk-columns input type resolves to an input-object type, \<^verbatim>\<open>primaryKeys\<close> is its
  flattening; otherwise it is the model's flattened list filtered to the names of
  \<^verbatim>\<open>primaryKeyNames\<close>, which is \<^verbatim>\<open>["id"]\<close> when the option is missing. The plugin
  returns whenever the schema has a mutation type and \<^verbatim>\<open>models\<close> is given.
\<close>

theorem primaryKeys_resolution:
  "(plugin R schema config = Inr res \<longrightarrow>
      (\<exists>ms. models config = Some ms \<and> dom res = set ms)
      \<and> (res modelName = Some r \<longrightarrow>
           primaryKeys r =
             (case resolveHandle InputObjectKind schema (pkColumnsName R modelName)
                     (camel R (pkColumnsName R modelName)) of
                Some t \<Rightarrow>
                  buildModelSchema t
                    \<lparr>disableFields = cfg_disableFields config,
                     primaryKeyNames =
                       (case cfg_primaryKeyNames config of
                          None \<Rightarrow> [''id'']
                        | Some ns \<Rightarrow> ns)\<rparr>
              | None \<Rightarrow>
                  filter (\<lambda>f. name f \<in> set (case cfg_primaryKeyNames config of
                                               None \<Rightarrow> [''id'']
                                             | Some ns \<Rightarrow> ns))
                    (model r))))
   \<and> (getMutationType schema' = Some mutation \<and> models config' = Some ms' \<longrightarrow>
        (\<exists>res'. plugin R' schema' config' = Inr res'))"
proof (intro conjI impI)
  let ?options = "\<lparr>disableFields = cfg_disableFields config,
                   primaryKeyNames =
                     (case cfg_primaryKeyNames config of None \<Rightarrow> [''id''] | Some ns \<Rightarrow> ns)\<rparr>"
  assume "plugin R schema config = Inr res"
  then have b: "buildModelSchemas R (models config) schema ?options = Inr res"
    by (simp add: plugin_def)
  from buildModelSchemas_Inr[OF b]
  show "\<exists>ms. models config = Some ms \<and> dom res = set ms" by blast
  assume s: "res modelName = Some r"
  from buildModelSchemas_lookup[OF b s] obtain mutation
    where r: "r = buildModelSchemas_result R schema (getFields mutation) ?options modelName"
    by blast
  show "primaryKeys r =
             (case resolveHandle InputObjectKind schema (pkColumnsName R modelName)
                     (camel R (pkColumnsName R modelName)) of
                Some t \<Rightarrow> buildModelSchema t ?options
              | None \<Rightarrow>
                  filter (\<lambda>f. name f \<in> set (case cfg_primaryKeyNames config of
                                               None \<Rightarrow> [''id'']
                                             | Some ns \<Rightarrow> ns))
                    (model r))"
    unfolding r by (simp add: result_primaryKeys split: option.splits)
next
  assume "getMutationType schema' = Some mutation \<and> models config' = Some ms'"
  then show "\<exists>res'. plugin R' schema' config' = Inr res'"
    using buildModelSchemas_total[of schema' mutation R' ms'] by (simp add: plugin_def)
qed

theorem primaryKeys_resolution_witness:
  "plugin two_model_radash two_model_schema two_model_config
     = Inr [''user'' \<mapsto> example_user_record, ''role'' \<mapsto> example_role_record]
   \<and> [''user'' \<mapsto> example_user_record, ''role'' \<mapsto> example_role_record] ''role''
       = Some example_role_record
   \<and> [''user'' \<mapsto> example_user_record, ''role'' \<mapsto> example_role_record] ''user''
       = Some example_user_record
   \<and> getMutationType two_model_schema = Some two_model_mutation_root
   \<and> models two_model_config = Some [''user'', ''role'']
   \<and> dom [''user'' \<mapsto> example_user_record, ''role'' \<mapsto> example_role_record]
       = set [''user'', ''role'']
   \<and> primaryKeys example_role_record
       = buildModelSchema role_pk_columns_input_type
           \<lparr>disableFields = None, primaryKeyNames = [''id'']\<rparr>
   \<and> primaryKeys example_user_record
       = filter (\<lambda>f. name f \<in> set [''id'']) (model example_user_record)"
proof -
  let ?res = "[''user'' \<mapsto> example_user_record, ''role'' \<mapsto> example_role_record]"
  have h2: "?res ''role'' = Some example_role_record"
    by simp
  have h2': "?res ''user'' = Some example_user_record"
    by simp
  have h4: "models two_model_config = Some [''user'', ''role'']"
    by (simp add: two_model_config_def)
  have c: "cfg_primaryKeyNames two_model_config = None"
    "cfg_disableFields two_model_config = None"
    by (simp_all add: two_model_config_def)
  note t = primaryKeys_resolution [of two_model_radash two_model_schema two_model_config
      ?res "''role''" example_role_record
      two_model_schema two_model_mutation_root two_model_config "[''user'', ''role'']"
      two_model_radash]
  note u = primaryKeys_resolution [of two_model_radash two_model_schema two_model_config
      ?res "''user''" example_user_record
      two_model_schema two_model_mutation_root two_model_config "[''user'', ''role'']"
      two_model_radash]
  from t two_model_plugin h4
  have d: "dom ?res = set [''user'', ''role'']"
    by auto
  from t two_model_plugin h2 two_model_handles(4) c
  have p: "primaryKeys example_role_record
       = buildModelSchema role_pk_columns_input_type
           \<lparr>disableFields = None, primaryKeyNames = [''id'']\<rparr>"
    by simp
  from u two_model_plugin h2' two_model_handles(6) c
  have q: "primaryKeys example_user_record
       = filter (\<lambda>f. name f \<in> set [''id'']) (model example_user_record)"
    by simp
  from two_model_plugin h2 h2' two_model_mutation h4 d p q show ?thesis by blast
qed

text \<open>
  Claim C8: when a batch returns, its result has a record for every requested name and
  for no other, and every type slot of every record is resolved by \<open>resolveHandle\<close>: the
  type of the snake\_case name if it is of the expected kind (object for the model, input
  object for the others), else the type of the camelCase name under the same check, else
  nothing, each slot on its own; the collection of a slot without a handle is empty
  (\<^verbatim>\<open>null\<close> in the map variant, the filtered model list for the primary keys). The delete
  field is looked up under the snake\_case name and then the camelCase one. The list
  variant returns whenever the schema has a mutation type; the map variant returns
  whenever, in addition, every requested name has a handle for one of its three slots.
  The two variants are stated apart.
\<close>

theorem resolution_order:
  "(buildModelSchemas R ms schema options = Inr res \<longrightarrow>
      (\<exists>xs. ms = Some xs \<and> dom res = set xs)
      \<and> (res modelName = Some r \<longrightarrow>
           model r =
             (case resolveHandle ObjectKind schema (snake R modelName) (camel R modelName) of
                None \<Rightarrow> []
              | Some t \<Rightarrow> buildModelSchema t options)
           \<and> insertInput r =
             (case resolveHandle InputObjectKind schema (insertInputName R modelName)
                     (camel R (insertInputName R modelName)) of
                None \<Rightarrow> []
              | Some t \<Rightarrow> buildModelSchema t options)
           \<and> setInput r =
             (case resolveHandle InputObjectKind schema (setInputName R modelName)
                     (camel R (setInputName R modelName)) of
                None \<Rightarrow> []
              | Some t \<Rightarrow> buildModelSchema t options)
           \<and> primaryKeys r =
             (case resolveHandle InputObjectKind schema (pkColumnsName R modelName)
                     (camel R (pkColumnsName R modelName)) of
                None \<Rightarrow> filter (\<lambda>f. name f \<in> set (primaryKeyNames options)) (model r)
              | Some t \<Rightarrow> buildModelSchema t options)
           \<and> (delete_flag (permissions r) \<longleftrightarrow>
                 hasMutationField schema (deleteName R modelName)
                 \<or> hasMutationField schema (camel R (deleteName R modelName)))))
   \<and> (getMutationType schema = Some mutation \<longrightarrow>
        (\<exists>out. buildModelSchemas R (Some names) schema options = Inr out))
   \<and> (buildModelSchemas_tables R' ts schema' options' = Inr res' \<longrightarrow>
      (\<exists>ys. ts = Some ys \<and> dom res' = set ys)
      \<and> (res' tableName = Some r' \<longrightarrow>
           model_tables r' =
             map_option (\<lambda>t. buildModelSchema_tables t options')
               (resolveHandle ObjectKind schema' (snake R' tableName) (camel R' tableName))
           \<and> insertInput_tables r' =
             map_option (\<lambda>t. buildModelSchema_tables t options')
               (resolveHandle InputObjectKind schema' (insertInputName R' tableName)
                  (camel R' (insertInputName R' tableName)))
           \<and> setInput_tables r' =
             map_option (\<lambda>t. buildModelSchema_tables t options')
               (resolveHandle InputObjectKind schema' (setInputName R' tableName)
                  (camel R' (setInputName R' tableName)))
           \<and> (delete_flag (permissions_tables r') \<longleftrightarrow>
                 hasMutationField schema' (deleteName R' tableName)
                 \<or> hasMutationField schema' (camel R' (deleteName R' tableName)))))
   \<and> (getMutationType schema' = Some mutation' \<and> list_all (resolvesAny R' schema') names'
        \<longrightarrow> (\<exists>out. buildModelSchemas_tables R' (Some names') schema' options' = Inr out))"
proof (intro conjI impI)
  assume b: "buildModelSchemas R ms schema options = Inr res"
  from buildModelSchemas_Inr[OF b]
  show "\<exists>xs. ms = Some xs \<and> dom res = set xs" by blast
  assume s: "res modelName = Some r"
  from buildModelSchemas_lookup[OF b s] obtain mt
    where mt: "getMutationType schema = Some mt"
      and r: "r = buildModelSchemas_result R schema (getFields mt) options modelName"
    by blast
  show "model r =
           (case resolveHandle ObjectKind schema (snake R modelName) (camel R modelName) of
              None \<Rightarrow> []
            | Some t \<Rightarrow> buildModelSchema t options)"
    unfolding r by (rule result_model)
  show "insertInput r =
           (case resolveHandle InputObjectKind schema (insertInputName R modelName)
                   (camel R (insertInputName R modelName)) of
              None \<Rightarrow> []
            | Some t \<Rightarrow> buildModelSchema t options)"
    unfolding r by (rule result_insertInput)
  show "setInput r =
           (case resolveHandle InputObjectKind schema (setInputName R modelName)
                   (camel R (setInputName R modelName)) of
              None \<Rightarrow> []
            | Some t \<Rightarrow> buildModelSchema t options)"
    unfolding r by (rule result_setInput)
  show "primaryKeys r =
           (case resolveHandle InputObjectKind schema (pkColumnsName R modelName)
                   (camel R (pkColumnsName R modelName)) of
              None \<Rightarrow> filter (\<lambda>f. name f \<in> set (primaryKeyNames options)) (model r)
            | Some t \<Rightarrow> buildModelSchema t options)"
    unfolding r by (rule result_primaryKeys)
  show "delete_flag (permissions r) \<longleftrightarrow>
               hasMutationField schema (deleteName R modelName)
               \<or> hasMutationField schema (camel R (deleteName R modelName))"
    unfolding r by (simp add: result_permissions hasMutationField_iff[OF mt])
next
  assume "getMutationType schema = Some mutation"
  then show "\<exists>out. buildModelSchemas R (Some names) schema options = Inr out"
    by (rule buildModelSchemas_total)
next
  assume b: "buildModelSchemas_tables R' ts schema' options' = Inr res'"
  from buildModelSchemas_tables_Inr[OF b]
  show "\<exists>ys. ts = Some ys \<and> dom res' = set ys" by blast
  assume s: "res' tableName = Some r'"
  from buildModelSchemas_tables_lookup[OF b s] obtain mt
    where mt: "getMutationType schema' = Some mt"
      and r: "r' = buildModelSchemas_tables_result R' schema' (getFields mt) options' tableName"
    by blast
  show "model_tables r' =
             map_option (\<lambda>t. buildModelSchema_tables t options')
               (resolveHandle ObjectKind schema' (snake R' tableName) (camel R' tableName))"
    unfolding r by (rule tables_result_model)
  show "insertInput_tables r' =
             map_option (\<lambda>t. buildModelSchema_tables t options')
               (resolveHandle InputObjectKind schema' (insertInputName R' tableName)
                  (camel R' (insertInputName R' tableName)))"
    unfolding r by (rule tables_result_insertInput)
  show "setInput_tables r' =
             map_option (\<lambda>t. buildModelSchema_tables t options')
               (resolveHandle InputObjectKind schema' (setInputName R' tableName)
                  (camel R' (setInputName R' tableName)))"
    unfolding r by (rule tables_result_setInput)
  show "delete_flag (permissions_tables r') \<longleftrightarrow>
               hasMutationField schema' (deleteName R' tableName)
               \<or> hasMutationField schema' (camel R' (deleteName R' tableName))"
    unfolding r by (simp add: tables_result_permissions hasMutationField_iff[OF mt])
next
  assume "getMutationType schema' = Some mutation' \<and> list_all (resolvesAny R' schema') names'"
  then show "\<exists>out. buildModelSchemas_tables R' (Some names') schema' options' = Inr out"
    using buildModelSchemas_tables_total by blast
qed

theorem resolution_order_witness:
  "buildModelSchemas two_model_radash (Some [''user'', ''role'']) two_model_schema example_options
     = Inr [''user'' \<mapsto> example_user_record, ''role'' \<mapsto> example_role_record]
   \<and> [''user'' \<mapsto> example_user_record, ''role'' \<mapsto> example_role_record] ''role''
       = Some example_role_record
   \<and> getMutationType two_model_schema = Some two_model_mutation_root
   \<and> buildModelSchemas_tables two_model_radash (Some [''user'', ''role'']) two_model_schema
        example_options_tables
     = Inr [''user'' \<mapsto> example_user_record_tables, ''role'' \<mapsto> example_role_record_tables]
   \<and> [''user'' \<mapsto> example_user_record_tables, ''role'' \<mapsto> example_role_record_tables] ''role''
       = Some example_role_record_tables
   \<and> list_all (resolvesAny two_model_radash two_model_schema) [''user'', ''role'']
   \<and> dom [''user'' \<mapsto> example_user_record, ''role'' \<mapsto> example_role_record]
       = set [''user'', ''role'']
   \<and> dom [''user'' \<mapsto> example_user_record_tables, ''role'' \<mapsto> example_role_record_tables]
       = set [''user'', ''role'']
   \<and> model example_role_record = buildModelSchema role_type example_options
   \<and> insertInput example_role_record = []
   \<and> setInput example_role_record = buildModelSchema role_set_input_type example_options
   \<and> primaryKeys example_role_record
       = buildModelSchema role_pk_columns_input_type example_options
   \<and> model_tables example_role_record_tables
       = Some (buildModelSchema_tables role_type example_options_tables)
   \<and> insertInput_tables example_role_record_tables = None
   \<and> setInput_tables example_role_record_tables
       = Some (buildModelSchema_tables role_set_input_type example_options_tables)"
proof -
  let ?res = "[''user'' \<mapsto> example_user_record, ''role'' \<mapsto> example_role_record]"
  let ?res' = "[''user'' \<mapsto> example_user_record_tables,
                ''role'' \<mapsto> example_role_record_tables]"
  have h2: "?res ''role'' = Some example_role_record"
    by simp
  have h4: "?res' ''role'' = Some example_role_record_tables"
    by simp
  have h5: "list_all (resolvesAny two_model_radash two_model_schema) [''user'', ''role'']"
    by (simp add: resolvesAny_def two_model_handles truthy_object_def)
  note t = resolution_order [of two_model_radash "Some [''user'', ''role'']" two_model_schema
      example_options ?res "''role''" example_role_record
      two_model_mutation_root "[''user'', ''role'']"
      two_model_radash "Some [''user'', ''role'']" two_model_schema example_options_tables
      ?res' "''role''" example_role_record_tables
      two_model_mutation_root "[''user'', ''role'']"]
  from t two_model_run
  have d1: "dom ?res = set [''user'', ''role'']"
    by auto
  from t two_model_run_tables
  have d2: "dom ?res' = set [''user'', ''role'']"
    by auto
  from t two_model_run h2 two_model_run_tables h4 two_model_handles
  have s: "model example_role_record = buildModelSchema role_type example_options
   \<and> insertInput example_role_record = []
   \<and> setInput example_role_record = buildModelSchema role_set_input_type example_options
   \<and> primaryKeys example_role_record
       = buildModelSchema role_pk_columns_input_type example_options
   \<and> model_tables example_role_record_tables
       = Some (buildModelSchema_tables role_type example_options_tables)
   \<and> insertInput_tables example_role_record_tables = None
   \<and> setInput_tables example_role_record_tables
       = Some (buildModelSchema_tables role_set_input_type example_options_tables)"
    by simp
  from two_model_run h2 two_model_mutation two_model_run_tables h4 h5 d1 d2 s
  show ?thesis by blast
qed

end
